theory Spec2Isabelle
  imports Main "HOL-Library.AList"
begin

section \<open>Data model of index.js\<close>

text \<open>
  A block hash is handled in two forms by index.js: as a Buffer (\<open>block.hash()\<close>,
  \<open>block.header.parentHash\<close>, values of the number index) and as the hex string of
  that Buffer (\<open>toString('hex')\<close>, the fields of a Detail Record and of the meta
  record). \<open>Buffer.from(h, 'hex')\<close> and \<open>toString('hex')\<close> are inverse to one
  another, so both forms are the hex string here.
\<close>

type_synonym hex = string

text \<open>
  The block of the external codec, reduced to what index.js reads from it:
  \<open>block.hash()\<close>, \<open>block.header.parentHash\<close>,
  \<open>bufferToInt(block.header.number)\<close>, \<open>bufferToInt(block.header.difficulty)\<close>
  and \<open>block.isGenesis()\<close>. \<open>block.serialize()\<close> followed by
  \<open>new Block(rlp.decode(...))\<close> gives the block back, so the block store holds blocks.
\<close>

record block =
  hash :: hex
  header_parentHash :: hex
  header_number :: nat
  header_difficulty :: nat
  isGenesis :: bool

text \<open>
  The Detail Record written by \<open>rebuildInfo\<close> as JSON. \<open>td\<close> is the decimal string
  of a big number, read back with \<open>new BN(...)\<close>: a natural number. \<open>child\<close> is
  \<open>null\<close> or a hex string. \<open>inChain\<close> is absent until it is assigned.
  \<open>markers\<close> are the consumer names \<open>n\<close> for which the iterator has set
  \<open>details[n] = true\<close> (names are taken not to collide with the fixed fields).
\<close>

record details =
  parent :: hex
  td :: nat
  number :: nat
  child :: "hex option"
  staleChildren :: "hex list"
  genesis :: bool
  inChain :: "bool option"
  markers :: "string list"

text \<open>
  \<open>self.meta\<close>. \<open>heads\<close> is a plain object used as a dictionary from consumer name
  to hex hash: the field holds its own properties, as an association list because
  \<open>_delBlock\<close> enumerates them; what a read of \<open>heads[name]\<close> gives is
  \<open>get_head\<close> below. The fields \<open>td\<close> and \<open>genesis\<close> of the source carry the
  prefix \<open>meta_\<close> here, the Detail Record having fields of the same names.
\<close>

record meta =
  heads :: "(string \<times> hex) list"
  rawHead :: "hex option"
  height :: "nat option"
  meta_td :: nat
  meta_genesis :: "hex option"

datatype error =
    Error string
  | ParentHashNotFound hex
  | NotFoundError
  | WriteError
  | TypeError

text \<open>
  \<open>Error m\<close> is \<open>new Error(m)\<close>; \<open>ParentHashNotFound h\<close> is the Error
  \<open>parent hash not found: ...\<close> of \<open>lookupParentBlock\<close> for parent hash \<open>h\<close>;
  \<open>NotFoundError\<close> is what the store's \<open>get\<close> answers for a missing key;
  \<open>WriteError\<close> is a store refusing a write;
  \<open>TypeError\<close> is the exception JavaScript throws on a property read of
  \<open>null\<close> or \<open>undefined\<close> and on a call of something that is not a function.
\<close>

subsection \<open>The two stores\<close>

text \<open>
  The detail store holds four disjoint families of keys: \<open>'detail:' + hex\<close> with a
  Detail Record, the decimal string of a block number with a hash (the number index;
  a lookup with the number \<open>-1\<close> asks for the key \<open>-1\<close>, hence integer keys),
  \<open>'meta'\<close> with the meta record, and the key that \<open>_saveMeta\<close> writes: with
  \<open>keyEncoding: 'json'\<close> that key is the JSON text of the string \<open>meta\<close>, quotes
  included, and the value is the object rendered by the default string encoding.
\<close>

record details_db =
  detail :: "hex \<rightharpoonup> details"
  numberIndex :: "int \<rightharpoonup> hex"
  metaJson :: "meta option"
  metaQuoted :: "string option"

subsection \<open>Staged operations\<close>

text \<open>
  An entry of \<open>dbOps\<close>. The constructor fixes the \<open>db\<close> and \<open>type\<close> fields and
  the key family. \<open>PutDetail\<close> carries \<open>None\<close> when the value staged is
  \<open>undefined\<close>. \<open>PutMeta\<close> carries no value: the source stages a reference to
  \<open>self.meta\<close>, and what is written is that object as it is when the batch runs.
  In the same way every \<open>PutDetail\<close> below carries the Detail Record as it is after
  the last assignment the function makes to the staged object.
\<close>

datatype op =
    PutDetail hex "details option"
  | PutBlock hex block
  | PutNumber int hex
  | PutMeta
  | DelDetail hex
  | DelBlock string

text \<open>
  A key of the block store is the key's bytes. \<open>rebuildInfo\<close> and \<open>lookupByHash\<close>
  pass the hash Buffer with \<open>keyEncoding: 'binary'\<close>; \<open>_delBlock\<close> passes the hex
  string of the hash with no key encoding, which is the string's own characters: twice
  as many bytes as the Buffer has, so never the key the block was stored under.
\<close>

datatype block_key = Binary hex | Utf8 string

record blockchain =
  blockDb :: "block_key \<rightharpoonup> block"
  detailsDb :: details_db
  batch_undefined :: "details_db \<Rightarrow> op list \<Rightarrow> error option \<times> details_db"
  validate :: bool
  meta :: "meta option"
  initLock :: bool

text \<open>
  \<open>meta\<close> is \<open>null\<close> (\<open>None\<close>) from the constructor until \<open>_init\<close> assigns
  it; \<open>initLock\<close> is \<open>True\<close> while the Stoplight is locked.

  The stores are handed to the constructor, and what the detail store does with a batch
  that holds a put of \<open>undefined\<close> is the store engine's own business (one engine
  refuses the batch, another writes the text \<open>undefined\<close>, which no later read can
  parse). \<open>batch_undefined\<close> is that behaviour: from the store and the batch to the
  error of the batch, if any, and the store afterwards.

  The collaborators that index.js requires and does not define: the block's own
  \<open>validate(blockchain, cb)\<close>, the proof-of-work verifier (taken as a predicate on
  the block), the block that \<open>setGenesisParams\<close> builds, and the big-number library's
  reading of a \<open>td\<close> that went through JSON.
\<close>

record collaborators =
  block_validate :: "blockchain \<Rightarrow> block \<Rightarrow> error option"
  vapash_verifyPOW :: "block \<Rightarrow> bool"
  genesisBlock :: block
  bn_of_json :: "nat \<Rightarrow> nat"

text \<open>JavaScript truthiness of a value that is \<open>undefined\<close>, \<open>null\<close> or a string.\<close>

fun truthy :: "string option \<Rightarrow> bool" where
  "truthy None = False"
| "truthy (Some h) = (h \<noteq> [])"

subsection \<open>Reading and writing \<open>heads[name]\<close>\<close>

text \<open>
  \<open>heads\<close> is created as \<open>{}\<close> or parsed from JSON, so it inherits the members of
  \<open>Object.prototype\<close>. A read of \<open>heads[name]\<close> gives the own property of that name
  if there is one, else the inherited member if \<open>name\<close> names one (a function, or for
  \<open>__proto__\<close> the prototype object: truthy, and not a string), else \<open>undefined\<close>.
\<close>

definition Object_prototype :: "string list" where
  "Object_prototype =
     [''constructor'', ''__defineGetter__'', ''__defineSetter__'', ''hasOwnProperty'',
      ''__lookupGetter__'', ''__lookupSetter__'', ''isPrototypeOf'', ''propertyIsEnumerable'',
      ''toString'', ''valueOf'', ''__proto__'', ''toLocaleString'']"

datatype js_value = Undefined | Str string | Member string

fun js_truthy :: "js_value \<Rightarrow> bool" where
  "js_truthy Undefined = False"
| "js_truthy (Str h) = (h \<noteq> [])"
| "js_truthy (Member n) = True"

text \<open>A property that holds a string, or is \<open>undefined\<close> or \<open>null\<close>.\<close>

fun js_of :: "string option \<Rightarrow> js_value" where
  "js_of None = Undefined"
| "js_of (Some h) = Str h"

definition get_head :: "(string \<times> hex) list \<Rightarrow> string \<Rightarrow> js_value" where
  "get_head hs name =
     (case map_of hs name of
        Some h \<Rightarrow> Str h
      | None \<Rightarrow> if name \<in> set Object_prototype then Member name else Undefined)"

text \<open>
  The assignment \<open>heads[name] = h\<close> makes or changes the own property, except that
  for \<open>__proto__\<close> with no own property of that name it calls the inherited setter,
  which ignores a string.
\<close>

definition set_head :: "string \<Rightarrow> hex \<Rightarrow> (string \<times> hex) list \<Rightarrow> (string \<times> hex) list" where
  "set_head name h hs =
     (if name = ''__proto__'' \<and> map_of hs name = None then hs else AList.update name h hs)"

text \<open>
  What \<open>toString\<close> gives for a value: the string itself, the source text of an
  inherited function, the tag of the prototype object.
\<close>

definition member_text :: "string \<Rightarrow> string" where
  "member_text n =
     (if n = ''__proto__'' then ''[object Object]''
      else ''function '' @ (if n = ''constructor'' then ''Object'' else n) @ ''() { [native code] }'')"

fun js_toString :: "js_value \<Rightarrow> string" where
  "js_toString Undefined = ''undefined''"
| "js_toString (Str h) = h"
| "js_toString (Member n) = member_text n"

subsection \<open>The batch writer\<close>

fun is_block_op :: "op \<Rightarrow> bool" where
  "is_block_op (PutBlock h b) = True"
| "is_block_op (DelBlock k) = True"
| "is_block_op _ = False"

fun undefined_value :: "op \<Rightarrow> bool" where
  "undefined_value (PutDetail h None) = True"
| "undefined_value _ = False"

fun apply_block_op :: "op \<Rightarrow> (block_key \<rightharpoonup> block) \<Rightarrow> (block_key \<rightharpoonup> block)" where
  "apply_block_op (PutBlock h b) db = db(Binary h \<mapsto> b)"
| "apply_block_op (DelBlock k) db = db(Utf8 k := None)"
| "apply_block_op _ db = db"

fun apply_details_op :: "meta option \<Rightarrow> op \<Rightarrow> details_db \<Rightarrow> details_db" where
  "apply_details_op m (PutDetail h (Some d)) db = db\<lparr>detail := (detail db)(h \<mapsto> d)\<rparr>"
| "apply_details_op m (PutNumber n h) db = db\<lparr>numberIndex := (numberIndex db)(n \<mapsto> h)\<rparr>"
| "apply_details_op m PutMeta db = db\<lparr>metaJson := m\<rparr>"
| "apply_details_op m (DelDetail h) db = db\<lparr>detail := (detail db)(h := None)\<rparr>"
| "apply_details_op m _ db = db"

text \<open>
  \<open>_batchDbOps\<close>: the operations are split by store and the two batches run side
  by side, each applied in order and as a whole. A batch for the detail store that
  holds an undefined value is left to the store engine; the batch for the block
  store is written all the same.
\<close>

definition priv_batchDbOps :: "blockchain \<Rightarrow> op list \<Rightarrow> error option \<times> blockchain" where
  "priv_batchDbOps s dbOps =
     (let blockDbOps = filter is_block_op dbOps;
          detailsDbOps = filter (\<lambda>op. \<not> is_block_op op) dbOps;
          s1 = s\<lparr>blockDb := fold apply_block_op blockDbOps (blockDb s)\<rparr>
      in if list_ex undefined_value detailsDbOps
         then (fst (batch_undefined s (detailsDb s) detailsDbOps),
               s1\<lparr>detailsDb := snd (batch_undefined s (detailsDb s) detailsDbOps)\<rparr>)
         else (None, s1\<lparr>detailsDb := fold (apply_details_op (meta s)) detailsDbOps (detailsDb s)\<rparr>))"

subsection \<open>Retrieval\<close>

definition getDetails :: "blockchain \<Rightarrow> hex \<Rightarrow> error + details" where
  "getDetails s h =
     (case detail (detailsDb s) h of None \<Rightarrow> Inl NotFoundError | Some d \<Rightarrow> Inr d)"

definition putDetails :: "blockchain \<Rightarrow> hex \<Rightarrow> details \<Rightarrow> blockchain" where
  "putDetails s h val =
     s\<lparr>detailsDb := (detailsDb s)\<lparr>detail := (detail (detailsDb s))(h \<mapsto> val)\<rparr>\<rparr>"

text \<open>The argument of \<open>getBlock\<close>: a Buffer, an integer, or anything else.\<close>

datatype blockTag = Buf hex | Num int | Other

definition lookupByHash :: "blockchain \<Rightarrow> hex \<Rightarrow> error + block" where
  "lookupByHash s h =
     (case blockDb s (Binary h) of None \<Rightarrow> Inl NotFoundError | Some b \<Rightarrow> Inr b)"

definition lookupNumberToHash :: "blockchain \<Rightarrow> int \<Rightarrow> error + hex" where
  "lookupNumberToHash s n =
     (case numberIndex (detailsDb s) n of None \<Rightarrow> Inl NotFoundError | Some h \<Rightarrow> Inr h)"

fun getBlock :: "blockchain \<Rightarrow> blockTag \<Rightarrow> error + block" where
  "getBlock s (Buf h) = lookupByHash s h"
| "getBlock s (Num n) =
     (case lookupNumberToHash s n of Inl e \<Rightarrow> Inl e | Inr h \<Rightarrow> lookupByHash s h)"
| "getBlock s Other = Inl (Error ''Unknown blockTag type'')"

section \<open>Ingestion\<close>

subsection \<open>\<open>_rebuildBlockchain\<close>\<close>

text \<open>
  The recursion climbs the parent links of the stored Detail Records, which may form a
  cycle in a damaged store, so it is bounded by fuel: \<open>None\<close> means that the fuel ran
  out before the function called back. A leading underscore of the source is written
  \<open>priv_\<close>.

  The staged parent record is the object that \<open>parentDetails.inChain = true\<close>
  changes after the push, so the operation carries the record with that assignment
  made. \<open>staleHash\<close> is a Buffer and therefore never falsy. The store is only read:
  nothing is written before the batch.
\<close>

fun priv_rebuildBlockchain ::
  "nat \<Rightarrow> blockchain \<Rightarrow> hex \<Rightarrow> hex \<Rightarrow> details option \<Rightarrow> op list \<Rightarrow> (error + op list) option" where
  "priv_rebuildBlockchain 0 s h parentHash parentDetails ops = None"
| "priv_rebuildBlockchain (Suc n) s h parentHash None ops = Some (Inl TypeError)"
| "priv_rebuildBlockchain (Suc n) s h parentHash (Some pd) ops =
     (let pd1 = pd\<lparr>staleChildren := remove1 h (staleChildren pd)\<rparr>;
          pd2 = (if truthy (child pd1) \<and> child pd1 \<noteq> Some h
                 then pd1\<lparr>staleChildren := staleChildren pd1 @ [the (child pd1)]\<rparr>
                 else pd1);
          pd3 = pd2\<lparr>child := Some h\<rparr>
      in if inChain pd3 = Some True
         then Some (Inr (ops @ [PutDetail parentHash (Some pd3)]))
         else
           let pd4 = pd3\<lparr>inChain := Some True\<rparr>;
               ops1 = ops @ [PutDetail parentHash (Some pd4)]
           in case lookupNumberToHash s (int (number pd4)) of
                Inl e \<Rightarrow> Some (Inl e)
              | Inr staleHash \<Rightarrow>
                 (case getDetails s staleHash of
                    Inl e \<Rightarrow> Some (Inl e)
                  | Inr staleDetails \<Rightarrow>
                     let ops2 = ops1 @
                           [PutNumber (int (number staleDetails)) parentHash,
                            PutDetail staleHash (Some (staleDetails\<lparr>inChain := Some False\<rparr>))]
                     in case getDetails s (parent pd4) of
                          Inl e \<Rightarrow> Some (Inl e)
                        | Inr ppDetails \<Rightarrow>
                            priv_rebuildBlockchain n s parentHash (parent pd4) (Some ppDetails) ops2))"

subsection \<open>\<open>_putBlock\<close>\<close>

definition verify :: "collaborators \<Rightarrow> blockchain \<Rightarrow> block \<Rightarrow> bool \<Rightarrow> error option" where
  "verify ext s b isG =
     (if \<not> validate s then None
      else if \<not> isG \<and> isGenesis b then Some (Error ''already have genesis set'')
      else block_validate ext s b)"

definition verifyPOW :: "collaborators \<Rightarrow> blockchain \<Rightarrow> block \<Rightarrow> error option" where
  "verifyPOW ext s b =
     (if \<not> validate s then None
      else if vapash_verifyPOW ext b then None else Some (Error ''invalid POW''))"

text \<open>With \<open>isGenesis\<close> set, \<open>parentDetails\<close> stays \<open>undefined\<close>.\<close>

definition lookupParentBlock :: "blockchain \<Rightarrow> block \<Rightarrow> bool \<Rightarrow> error + details option" where
  "lookupParentBlock s b isG =
     (if isG then Inr None
      else case getDetails s (header_parentHash b) of
             Inl e \<Rightarrow> Inl (ParentHashNotFound (header_parentHash b))
           | Inr d \<Rightarrow> Inr (Some d))"

text \<open>The local \<open>totalDifficulty\<close> of \<open>rebuildInfo\<close>, once the parent's term is added.\<close>

definition totalDifficulty :: "block \<Rightarrow> bool \<Rightarrow> details option \<Rightarrow> nat" where
  "totalDifficulty b isG parentDetails =
     header_difficulty b +
       (if isG then 0 else case parentDetails of None \<Rightarrow> 0 | Some pd \<Rightarrow> td pd)"

text \<open>The local \<open>blockDetails\<close> of \<open>rebuildInfo\<close> as the object literal builds it.\<close>

definition blockDetails :: "block \<Rightarrow> nat \<Rightarrow> details" where
  "blockDetails b t =
     \<lparr>parent = header_parentHash b, td = t, number = header_number b, child = None,
      staleChildren = [], genesis = isGenesis b, inChain = None, markers = []\<rparr>"

text \<open>
  \<open>rebuildInfo\<close> gives the staged operations, or the error it calls back with, and
  the instance with \<open>self.meta\<close> as the function leaves it: the head is assigned
  before the rebuilder runs and stays assigned when the rebuilder fails. Without
  \<open>isGenesis\<close> and with no parent record (which \<open>_putBlock\<close> never passes on) the
  read of \<open>parentDetails.td\<close> throws, as does any read of \<open>self.meta\<close> while it is
  \<open>null\<close>.
\<close>

definition rebuildInfo ::
  "nat \<Rightarrow> blockchain \<Rightarrow> block \<Rightarrow> bool \<Rightarrow> details option \<Rightarrow> ((error + op list) \<times> blockchain) option" where
  "rebuildInfo fuel s b isG parentDetails =
     (if \<not> isG \<and> parentDetails = None then Some (Inl TypeError, s)
      else case meta s of
        None \<Rightarrow> Some (Inl TypeError, s)
      | Some m \<Rightarrow>
         let blockHash = hash b;
             t = totalDifficulty b isG parentDetails;
             parentDetails1 =
               (if isG then parentDetails
                else map_option
                  (\<lambda>pd. pd\<lparr>staleChildren := staleChildren pd @ [blockHash]\<rparr>) parentDetails)
         in if isGenesis b \<or> meta_td m < t
            then
              let m1 = m\<lparr>rawHead := Some blockHash, height := Some (header_number b), meta_td := t\<rparr>;
                  dbOps = [PutDetail blockHash (Some ((blockDetails b t)\<lparr>inChain := Some True\<rparr>)),
                           PutBlock blockHash b,
                           PutNumber (int (header_number b)) blockHash,
                           PutMeta]
              in if isGenesis b
                 then Some (Inr dbOps, s\<lparr>meta := Some (m1\<lparr>meta_genesis := Some blockHash\<rparr>)\<rparr>)
                 else (case priv_rebuildBlockchain fuel (s\<lparr>meta := Some m1\<rparr>) blockHash
                              (header_parentHash b) parentDetails1 dbOps of
                         None \<Rightarrow> None
                       | Some r \<Rightarrow> Some (r, s\<lparr>meta := Some m1\<rparr>))
            else Some (Inr [PutDetail blockHash (Some (blockDetails b t)),
                            PutBlock blockHash b,
                            PutDetail (header_parentHash b) parentDetails1], s))"

text \<open>
  \<open>_putBlock\<close>: the five steps of \<open>async.series\<close>, the first error ending the
  series. The result is the error handed to the callback (\<open>None\<close> for success) and
  the instance afterwards. The argument is a block of the codec (the source converts
  anything else with \<open>new Block\<close>, after it has called its \<open>hash()\<close>).
\<close>

definition priv_putBlock ::
  "collaborators \<Rightarrow> nat \<Rightarrow> blockchain \<Rightarrow> block \<Rightarrow> bool \<Rightarrow> (error option \<times> blockchain) option" where
  "priv_putBlock ext fuel s b isG =
     (case verify ext s b isG of
        Some e \<Rightarrow> Some (Some e, s)
      | None \<Rightarrow>
     (case verifyPOW ext s b of
        Some e \<Rightarrow> Some (Some e, s)
      | None \<Rightarrow>
     (case lookupParentBlock s b isG of
        Inl e \<Rightarrow> Some (Some e, s)
      | Inr parentDetails \<Rightarrow>
     (case rebuildInfo fuel s b isG parentDetails of
        None \<Rightarrow> None
      | Some (Inl e, s1) \<Rightarrow> Some (Some e, s1)
      | Some (Inr dbOps, s1) \<Rightarrow> Some (priv_batchDbOps s1 dbOps)))))"

subsection \<open>The Init Gate and the public ingestion operations\<close>

text \<open>
  \<open>self._initLock.await(fn)\<close>: while the Stoplight is locked, \<open>fn\<close> is only
  registered for the \<open>unlock\<close> event and nothing else happens in the call
  (\<open>Waiting\<close>); \<open>fn\<close> runs when \<open>_init\<close> calls \<open>go()\<close>, as a call made with the
  gate open would. With the gate open \<open>fn\<close> runs (\<open>Ran\<close>). Calls are taken one at
  a time, so the put semaphore is always free when it is taken.
\<close>

datatype 'a outcome = Waiting | Ran 'a

definition putBlock ::
  "collaborators \<Rightarrow> nat \<Rightarrow> blockchain \<Rightarrow> block \<Rightarrow> bool \<Rightarrow> (error option \<times> blockchain) option outcome" where
  "putBlock ext fuel s b isG =
     (if initLock s then Waiting else Ran (priv_putBlock ext fuel s b isG))"

definition putGenesis ::
  "collaborators \<Rightarrow> nat \<Rightarrow> blockchain \<Rightarrow> block \<Rightarrow> (error option \<times> blockchain) option outcome" where
  "putGenesis ext fuel s g = putBlock ext fuel s g True"

text \<open>\<open>putBlocks\<close>: \<open>async.eachSeries\<close> over \<open>putBlock(block, done)\<close>.\<close>

fun putBlocks ::
  "collaborators \<Rightarrow> nat \<Rightarrow> blockchain \<Rightarrow> block list \<Rightarrow> (error option \<times> blockchain) option outcome" where
  "putBlocks ext fuel s [] = Ran (Some (None, s))"
| "putBlocks ext fuel s (b # bs) =
     (case putBlock ext fuel s b False of
        Waiting \<Rightarrow> Waiting
      | Ran None \<Rightarrow> Ran None
      | Ran (Some (Some e, s1)) \<Rightarrow> Ran (Some (Some e, s1))
      | Ran (Some (None, s1)) \<Rightarrow> putBlocks ext fuel s1 bs)"


definition head_td :: "(blockchain \<times> nat list) option \<Rightarrow> nat option" where
  "head_td r = (case r of None \<Rightarrow> None | Some (s, tds) \<Rightarrow> map_option meta_td (meta s))"

definition ingested_tds :: "(blockchain \<times> nat list) option \<Rightarrow> nat list" where
  "ingested_tds r = (case r of None \<Rightarrow> [] | Some (s, tds) \<Rightarrow> tds)"

text \<open>
  The same with calls that fail in between: a call that calls back with an error
  ingests nothing, and the next call is made on the instance as the failed one left
  it. The total difficulties are those of the blocks ingested.
\<close>

fun attempts ::
  "collaborators \<Rightarrow> nat \<Rightarrow> blockchain \<Rightarrow> (block \<times> bool) list \<Rightarrow> (blockchain \<times> nat list) option" where
  "attempts ext fuel s [] = Some (s, [])"
| "attempts ext fuel s ((b, isG) # rest) =
     (case priv_putBlock ext fuel s b isG of
        None \<Rightarrow> None
      | Some (Some e, s1) \<Rightarrow> attempts ext fuel s1 rest
      | Some (None, s1) \<Rightarrow>
          (case lookupParentBlock s b isG of
             Inl e \<Rightarrow> None
           | Inr parentDetails \<Rightarrow>
              (case attempts ext fuel s1 rest of
                 None \<Rightarrow> None
               | Some (s2, tds) \<Rightarrow> Some (s2, totalDifficulty b isG parentDetails # tds))))"

section \<open>Bootstrap\<close>

text \<open>
  The constructor leaves \<open>meta\<close> at \<open>null\<close> and the gate locked, and starts
  \<open>_init\<close>, whose store read completes later. \<open>_init\<close> takes the stored meta
  record, or a default one and the default genesis block put through
  \<open>_putBlock\<close>; the constructor's callback then opens the gate, or throws the error
  and leaves it locked.
\<close>

definition new_Blockchain ::
  "(block_key \<rightharpoonup> block) \<Rightarrow> details_db \<Rightarrow>
     (details_db \<Rightarrow> op list \<Rightarrow> error option \<times> details_db) \<Rightarrow> bool \<Rightarrow> blockchain" where
  "new_Blockchain bdb ddb bu v =
     \<lparr>blockDb = bdb, detailsDb = ddb, batch_undefined = bu, validate = v, meta = None,
      initLock = True\<rparr>"

definition priv_setCanonicalGenesisBlock ::
  "collaborators \<Rightarrow> nat \<Rightarrow> blockchain \<Rightarrow> (error option \<times> blockchain) option" where
  "priv_setCanonicalGenesisBlock ext fuel s = priv_putBlock ext fuel s (genesisBlock ext) True"

definition priv_init :: "collaborators \<Rightarrow> nat \<Rightarrow> blockchain \<Rightarrow> (error option \<times> blockchain) option" where
  "priv_init ext fuel s =
     (case metaJson (detailsDb s) of
        None \<Rightarrow>
          priv_setCanonicalGenesisBlock ext fuel
            (s\<lparr>meta := Some \<lparr>heads = [], rawHead = None, height = None, meta_td = 0,
                              meta_genesis = None\<rparr>\<rparr>)
      | Some m \<Rightarrow> Some (None, s\<lparr>meta := Some (m\<lparr>meta_td := bn_of_json ext (meta_td m)\<rparr>)\<rparr>))"

definition construct :: "collaborators \<Rightarrow> nat \<Rightarrow> blockchain \<Rightarrow> (error option \<times> blockchain) option" where
  "construct ext fuel s =
     (case priv_init ext fuel s of
        None \<Rightarrow> None
      | Some (Some e, s1) \<Rightarrow> Some (Some e, s1)
      | Some (None, s1) \<Rightarrow> Some (None, s1\<lparr>initLock := False\<rparr>))"

section \<open>Heads and ranges\<close>

text \<open>
  \<open>getHead\<close>: called with the callback alone, the name is \<open>'vm'\<close>. The body runs
  behind the gate. \<open>Buffer.from(hash, 'hex')\<close> takes a string; handed an inherited
  member it throws.
\<close>

definition getHead :: "blockchain \<Rightarrow> string option \<Rightarrow> (error + block) outcome" where
  "getHead s name_arg =
     (let name = (case name_arg of None \<Rightarrow> ''vm'' | Some n \<Rightarrow> n)
      in if initLock s then Waiting
         else Ran (case meta s of
                None \<Rightarrow> Inl TypeError
              | Some m \<Rightarrow>
                 let hash = (if js_truthy (get_head (heads m) name) then get_head (heads m) name
                             else js_of (rawHead m))
                 in if \<not> js_truthy hash then Inl (Error ''No head found.'')
                    else case hash of
                           Str h \<Rightarrow> getBlock s (Buf h)
                         | _ \<Rightarrow> Inl TypeError))"

text \<open>
  \<open>getBlocks\<close>: \<open>nextBlock\<close> calls itself from the callback of \<open>getBlock\<close> for as
  long as blocks are found and \<open>maxBlocks\<close> is not reached, which need not end (a
  number index that leads back to a lower block, \<open>maxBlocks\<close> zero): fuel bounds the
  number of lookups. \<open>i\<close>, \<open>maxBlocks\<close> and \<open>skip\<close> are integers.
  \<open>i % (skip + 1) !== 0\<close> holds when \<open>skip + 1\<close> is zero (the remainder is NaN) or
  does not divide \<open>i\<close>.
\<close>

fun nextBlock ::
  "nat \<Rightarrow> blockchain \<Rightarrow> int \<Rightarrow> int \<Rightarrow> bool \<Rightarrow> blockTag \<Rightarrow> int \<Rightarrow> block list \<Rightarrow> (error + block list) option" where
  "nextBlock 0 s maxBlocks skip reverse blockId i blocks = None"
| "nextBlock (Suc n) s maxBlocks skip reverse blockId i blocks =
     (case getBlock s blockId of
        Inl err \<Rightarrow> Some (Inr blocks)
      | Inr block \<Rightarrow>
         let i1 = i + 1;
             nextBlockNumber = int (header_number block) + (if reverse then - 1 else 1)
         in if i1 \<noteq> 0 \<and> skip \<noteq> 0 \<and> (skip + 1 = 0 \<or> \<not> (skip + 1) dvd i1)
            then nextBlock n s maxBlocks skip reverse (Num nextBlockNumber) i1 blocks
            else if int (length (blocks @ [block])) = maxBlocks
                 then Some (Inr (blocks @ [block]))
                 else nextBlock n s maxBlocks skip reverse (Num nextBlockNumber) i1
                        (blocks @ [block]))"

definition getBlocks ::
  "nat \<Rightarrow> blockchain \<Rightarrow> blockTag \<Rightarrow> int \<Rightarrow> int \<Rightarrow> bool \<Rightarrow> (error + block list) option" where
  "getBlocks fuel s blockId maxBlocks skip reverse =
     nextBlock fuel s maxBlocks skip reverse blockId (- 1) []"

text \<open>
  The range walk in the words of the specification, to compare \<open>getBlocks\<close> with:
  \<open>visited\<close> are the blocks found one after the other from the start by stepping the
  block number up or down, until the first lookup that fails (at most \<open>n\<close> lookups);
  \<open>emitted\<close> keeps every \<open>skip + 1\<close>-th of them, the first included, \<open>p\<close> being
  the position of the head of the list.
\<close>

fun visited :: "nat \<Rightarrow> blockchain \<Rightarrow> bool \<Rightarrow> blockTag \<Rightarrow> block list" where
  "visited 0 s reverse blockId = []"
| "visited (Suc n) s reverse blockId =
     (case getBlock s blockId of
        Inl err \<Rightarrow> []
      | Inr block \<Rightarrow>
          block # visited n s reverse
                    (Num (int (header_number block) + (if reverse then - 1 else 1))))"

fun emitted :: "int \<Rightarrow> int \<Rightarrow> block list \<Rightarrow> block list" where
  "emitted skip p [] = []"
| "emitted skip p (b # bs) =
     (if p \<noteq> 0 \<and> skip \<noteq> 0 \<and> (skip + 1 = 0 \<or> \<not> (skip + 1) dvd p)
      then emitted skip (p + 1) bs
      else b # emitted skip (p + 1) bs)"

section \<open>\<open>selectNeededHashes\<close>\<close>

text \<open>
  The loop body calls \<open>self.getBlockInfo\<close>. index.js gives \<open>Blockchain.prototype\<close>
  no member of that name: the accessor of the Detail Record is \<open>getDetails\<close>, and
  only its doc comment calls it \<open>getBlockInfo\<close>. The member is therefore
  \<open>undefined\<close>, and calling it throws. The loop is written for any value of the
  member (a function is handed \<open>hashes[mid]\<close>, which is \<open>undefined\<close> out of range),
  and \<open>selectNeededHashes\<close> hands it the member the instance has.
\<close>

definition getBlockInfo :: "(blockchain \<Rightarrow> hex option \<Rightarrow> error + details) option" where
  "getBlockInfo = None"

fun whilst_select ::
  "nat \<Rightarrow> (hex option \<Rightarrow> error + details) option \<Rightarrow> hex list \<Rightarrow> int \<Rightarrow> int \<Rightarrow> int \<Rightarrow> (error + int) option" where
  "whilst_select 0 member hashes mx mid mn = None"
| "whilst_select (Suc n) member hashes mx mid mn =
     (if mn \<le> mx then
        (case member of
           None \<Rightarrow> Some (Inl TypeError)
         | Some f \<Rightarrow>
            let arg = (if 0 \<le> mid \<and> mid < int (length hashes) then Some (hashes ! nat mid) else None);
                mn1 = (case f arg of Inr d \<Rightarrow> mid + 1 | Inl err \<Rightarrow> mn);
                mx1 = (case f arg of Inr d \<Rightarrow> mx | Inl err \<Rightarrow> mid - 1)
            in whilst_select n member hashes mx1 ((mn1 + mx1) div 2) mn1)
      else Some (Inr mn))"

definition selectNeededHashes :: "nat \<Rightarrow> blockchain \<Rightarrow> hex list \<Rightarrow> (error + hex list) option" where
  "selectNeededHashes fuel s hashes =
     (case whilst_select fuel (map_option (\<lambda>f. f s) getBlockInfo) hashes
             (int (length hashes) - 1) 0 0 of
        None \<Rightarrow> None
      | Some (Inl e) \<Rightarrow> Some (Inl e)
      | Some (Inr mn) \<Rightarrow> Some (Inr (drop (nat mn) hashes)))"

section \<open>Deletion\<close>

text \<open>
  \<open>removeStaleChildren\<close> iterates over \<open>details.staleChildern\<close>. The Detail Record
  has no property of that spelling, so the read gives \<open>undefined\<close>, and
  \<open>async.each\<close> over \<open>undefined\<close> visits nothing and calls back without error.
\<close>

definition staleChildern :: "details \<Rightarrow> hex list option" where
  "staleChildern d = None"

text \<open>
  \<open>_delBlock\<close> gives the error of its callback, \<open>dbOps\<close> and \<open>resetHeads\<close>. It
  follows \<open>child\<close> links of stored records, hence the fuel. The callback of
  \<open>getDetails\<close> reads \<open>self.meta.heads\<close> before it looks at the error.
\<close>

fun priv_delBlock ::
    "nat \<Rightarrow> blockchain \<Rightarrow> hex \<Rightarrow> op list \<Rightarrow> string list \<Rightarrow> (error option \<times> op list \<times> string list) option"
  and each_delBlock ::
    "nat \<Rightarrow> blockchain \<Rightarrow> hex list \<Rightarrow> op list \<Rightarrow> string list \<Rightarrow> (error option \<times> op list \<times> string list) option"
  where
  "priv_delBlock 0 s blockhash dbOps resetHeads = None"
| "priv_delBlock (Suc n) s blockhash dbOps resetHeads =
     (let dbOps1 = dbOps @ [DelDetail blockhash, DelBlock blockhash]
      in case meta s of
           None \<Rightarrow> Some (Some TypeError, dbOps1, resetHeads)
         | Some m \<Rightarrow>
            let resetHeads1 = resetHeads @ map fst (filter (\<lambda>(head, h). blockhash = h) (heads m))
            in case getDetails s blockhash of
                 Inl e \<Rightarrow> Some (Some e, dbOps1, resetHeads1)
               | Inr details \<Rightarrow>
                  (case (if truthy (child details)
                         then priv_delBlock n s (the (child details)) dbOps1 resetHeads1
                         else Some (None, dbOps1, resetHeads1)) of
                     None \<Rightarrow> None
                   | Some (Some e, dbOps2, resetHeads2) \<Rightarrow> Some (Some e, dbOps2, resetHeads2)
                   | Some (None, dbOps2, resetHeads2) \<Rightarrow>
                       each_delBlock n s
                         (case staleChildern details of None \<Rightarrow> [] | Some cs \<Rightarrow> cs)
                         dbOps2 resetHeads2))"
| "each_delBlock n s [] dbOps resetHeads = Some (None, dbOps, resetHeads)"
| "each_delBlock n s (c # cs) dbOps resetHeads =
     (case priv_delBlock n s c dbOps resetHeads of
        None \<Rightarrow> None
      | Some (Some e, dbOps1, resetHeads1) \<Rightarrow> Some (Some e, dbOps1, resetHeads1)
      | Some (None, dbOps1, resetHeads1) \<Rightarrow> each_delBlock n s cs dbOps1 resetHeads1)"

text \<open>
  \<open>delBlock\<close> takes the hash (of the block handed in, if it is a block). Its second
  step reads the Detail Record again before the batch deletes it, and throws on
  \<open>details.inChain\<close> if there is none. It does not wait for the gate.
\<close>

definition delBlock :: "nat \<Rightarrow> blockchain \<Rightarrow> hex \<Rightarrow> (error option \<times> blockchain) option" where
  "delBlock fuel s blockhash =
     (case priv_delBlock fuel s blockhash [] [] of
        None \<Rightarrow> None
      | Some (Some e, dbOps, resetHeads) \<Rightarrow> Some (Some e, s)
      | Some (None, dbOps, resetHeads) \<Rightarrow>
         (case getDetails s blockhash of
            Inl e \<Rightarrow> Some (Some TypeError, s)
          | Inr details \<Rightarrow>
             (case meta s of
                None \<Rightarrow> Some (Some TypeError, s)
              | Some m \<Rightarrow>
                 let m1 = (if inChain details = Some True
                           then m\<lparr>rawHead := Some (parent details)\<rparr> else m);
                     m2 = m1\<lparr>heads := fold (\<lambda>head hs. set_head head (parent details) hs)
                                          resetHeads (heads m1)\<rparr>
                 in Some (priv_batchDbOps (s\<lparr>meta := Some m2\<rparr>) dbOps))))"

section \<open>Chain iterator\<close>

text \<open>
  \<open>_saveMeta\<close> puts \<open>self.meta\<close> under \<open>'meta'\<close> with \<open>keyEncoding: 'json'\<close> and
  the default value encoding.
\<close>

definition priv_saveMeta :: "blockchain \<Rightarrow> error option \<times> blockchain" where
  "priv_saveMeta s =
     (None, s\<lparr>detailsDb := (detailsDb s)\<lparr>metaQuoted := Some ''[object Object]''\<rparr>\<rparr>)"

text \<open>
  One pass of \<open>run\<close>: the error of the series, the instance afterwards,
  \<open>lastBlock\<close>, the call made to the consumer (the block and the \<open>reorg\<close> flag
  handed to it) if the pass got that far, and the next \<open>blockhash\<close>
  (\<open>details.child\<close>, or \<open>false\<close> after an error). The consumer \<open>func\<close> answers
  with the error it calls back with; it is taken not to touch the instance.
\<close>

definition run ::
  "(block \<Rightarrow> bool \<Rightarrow> error option) \<Rightarrow> blockchain \<Rightarrow> string \<Rightarrow> hex \<Rightarrow> block option \<Rightarrow>
     error option \<times> blockchain \<times> block option \<times> (block \<times> bool) list \<times> hex option" where
  "run func s name blockhash lastBlock =
     (case getDetails s blockhash of
        Inl e \<Rightarrow> (Some e, s, lastBlock, [], None)
      | Inr details \<Rightarrow>
         (case meta s of
            None \<Rightarrow> (Some TypeError, s, lastBlock, [], None)
          | Some m \<Rightarrow>
             let s1 = s\<lparr>meta := Some (m\<lparr>heads := set_head name blockhash (heads m)\<rparr>)\<rparr>
             in case getBlock s1 (Buf blockhash) of
                  Inl e \<Rightarrow> (Some e, s1, lastBlock, [], None)
                | Inr block \<Rightarrow>
                   let reorg = (case lastBlock of
                                  None \<Rightarrow> False
                                | Some lb \<Rightarrow> hash lb \<noteq> header_parentHash block)
                   in case func block reorg of
                        Some e \<Rightarrow> (Some e, s1, Some block, [(block, reorg)], None)
                      | None \<Rightarrow>
                         let details1 = details\<lparr>markers := List.insert name (markers details)\<rparr>;
                             w = priv_batchDbOps s1 [PutDetail blockhash (Some details1), PutMeta]
                         in (fst w, snd w, Some block, [(block, reorg)],
                             (if fst w = None then child details1 else None))))"

text \<open>
  \<open>async.whilst\<close> over \<open>run\<close>: the test is the truthiness of \<open>blockhash\<close>, and an
  error of a pass ends the loop. The \<open>child\<close> links may form a cycle, so the passes
  are bounded by fuel. The result is the instance when the loop has ended (\<open>None\<close>
  when it is still running after that many passes), and the calls made to the consumer
  so far, in order.
\<close>

fun whilst_run ::
  "(block \<Rightarrow> bool \<Rightarrow> error option) \<Rightarrow> nat \<Rightarrow> blockchain \<Rightarrow> string \<Rightarrow> hex option \<Rightarrow> block option \<Rightarrow>
     (block \<times> bool) list \<Rightarrow> blockchain option \<times> (block \<times> bool) list" where
  "whilst_run func 0 s name blockhash lastBlock calls = (None, calls)"
| "whilst_run func (Suc n) s name blockhash lastBlock calls =
     (if \<not> truthy blockhash then (Some s, calls)
      else case run func s name (the blockhash) lastBlock of
             (Some e, s1, lastBlock1, call, nxt) \<Rightarrow> (Some s1, calls @ call)
           | (None, s1, lastBlock1, call, nxt) \<Rightarrow>
               whilst_run func n s1 name nxt lastBlock1 (calls @ call))"

text \<open>
  \<open>_iterator\<close>: the error handed to \<open>cb\<close> and the instance then (\<open>None\<close> while the
  loop is still running), and the calls made to the consumer. The first
  \<open>getDetails\<close> asks for the key made of \<open>blockhash.toString('hex')\<close>, whatever
  \<open>heads[name]\<close> gave. When it fails, \<open>cb\<close> gets the error (and the read of
  \<open>d.child\<close> then throws). The final callback of the loop ignores the loop's error
  and calls \<open>_saveMeta\<close>.
\<close>

definition priv_iterator ::
  "(block \<Rightarrow> bool \<Rightarrow> error option) \<Rightarrow> nat \<Rightarrow> blockchain \<Rightarrow> string \<Rightarrow>
     (error option \<times> blockchain) option \<times> (block \<times> bool) list" where
  "priv_iterator func fuel s name =
     (case meta s of
        None \<Rightarrow> (Some (Some TypeError, s), [])
      | Some m \<Rightarrow>
         let blockhash = (if js_truthy (get_head (heads m) name) then get_head (heads m) name
                          else js_of (meta_genesis m))
         in if \<not> js_truthy blockhash then (Some (None, s), [])
            else case getDetails s (js_toString blockhash) of
                   Inl e \<Rightarrow> (Some (Some e, s), [])
                 | Inr d \<Rightarrow>
                    (case whilst_run func fuel s name (child d) None [] of
                       (None, calls) \<Rightarrow> (None, calls)
                     | (Some s1, calls) \<Rightarrow> (Some (priv_saveMeta s1), calls)))"

definition iterator ::
  "(block \<Rightarrow> bool \<Rightarrow> error option) \<Rightarrow> nat \<Rightarrow> blockchain \<Rightarrow> string \<Rightarrow>
     ((error option \<times> blockchain) option \<times> (block \<times> bool) list) outcome" where
  "iterator func fuel s name =
     (if initLock s then Waiting else Ran (priv_iterator func fuel s name))"

section \<open>Auxiliary definitions for the proofs\<close>

text \<open>
  What the rebuilder may stage, given the Detail Records in the store: a number index
  entry, or a Detail Record under a key the store already has.
\<close>

fun staged_by_rebuild :: "(hex \<rightharpoonup> details) \<Rightarrow> op \<Rightarrow> bool" where
  "staged_by_rebuild ds (PutDetail k (Some d)) = (k \<in> dom ds)"
| "staged_by_rebuild ds (PutNumber n h) = True"
| "staged_by_rebuild ds _ = False"

text \<open>The parent record after the first three steps of \<open>_rebuildBlockchain\<close>.\<close>

definition relinked :: "hex \<Rightarrow> details \<Rightarrow> details" where
  "relinked h pd =
     (let pd1 = pd\<lparr>staleChildren := remove1 h (staleChildren pd)\<rparr>;
          pd2 = (if truthy (child pd1) \<and> child pd1 \<noteq> Some h
                 then pd1\<lparr>staleChildren := staleChildren pd1 @ [the (child pd1)]\<rparr>
                 else pd1)
      in pd2\<lparr>child := Some h\<rparr>)"

text \<open>
  The calls of one iterator run, checked from the front: \<open>prev\<close> is the block handed
  over before the first call of the list, if any.
\<close>

fun flags_ok :: "block option \<Rightarrow> (block \<times> bool) list \<Rightarrow> bool" where
  "flags_ok prev [] = True"
| "flags_ok prev ((b, r) # cs) =
     (r = (case prev of None \<Rightarrow> False | Some lb \<Rightarrow> hash lb \<noteq> header_parentHash b) \<and>
      flags_ok (Some b) cs)"

definition last_block :: "block option \<Rightarrow> (block \<times> bool) list \<Rightarrow> block option" where
  "last_block prev cs = (if cs = [] then prev else Some (fst (last cs)))"

text \<open>The operations that \<open>_delBlock\<close> stages.\<close>

fun is_del :: "op \<Rightarrow> bool" where
  "is_del (DelDetail k) = True"
| "is_del (DelBlock k) = True"
| "is_del _ = False"

section \<open>Example instances\<close>

text \<open>
  A small chain with validation off, in stores that refuse an undefined value: the
  genesis block \<open>00\<close> of difficulty 5, its
  children \<open>a1\<close> and \<open>b1\<close> of difficulty 3 each, and a second genesis block \<open>01\<close>
  of difficulty 1.
\<close>

definition ex_ext :: collaborators where
  "ex_ext = \<lparr>block_validate = (\<lambda>s b. None), vapash_verifyPOW = (\<lambda>b. True),
             genesisBlock = \<lparr>hash = ''00'', header_parentHash = ''ff'', header_number = 0,
                             header_difficulty = 5, isGenesis = True\<rparr>,
             bn_of_json = (\<lambda>n. n)\<rparr>"

definition ex_G :: block where
  "ex_G = \<lparr>hash = ''00'', header_parentHash = ''ff'', header_number = 0,
           header_difficulty = 5, isGenesis = True\<rparr>"

definition ex_A :: block where
  "ex_A = \<lparr>hash = ''a1'', header_parentHash = ''00'', header_number = 1,
           header_difficulty = 3, isGenesis = False\<rparr>"

definition ex_B :: block where
  "ex_B = \<lparr>hash = ''b1'', header_parentHash = ''00'', header_number = 1,
           header_difficulty = 3, isGenesis = False\<rparr>"

definition ex_G2 :: block where
  "ex_G2 = \<lparr>hash = ''01'', header_parentHash = ''ff'', header_number = 0,
            header_difficulty = 1, isGenesis = True\<rparr>"

definition ex_G_details :: details where
  "ex_G_details = \<lparr>parent = ''ff'', td = 5, number = 0, child = None, staleChildren = [],
                   genesis = True, inChain = Some True, markers = []\<rparr>"

definition ex_G_meta :: meta where
  "ex_G_meta = \<lparr>heads = [], rawHead = Some ''00'', height = Some 0, meta_td = 5,
                meta_genesis = Some ''00''\<rparr>"

text \<open>The instance with nothing stored and the default meta record of \<open>_init\<close>.\<close>

definition ex_fresh :: blockchain where
  "ex_fresh =
     \<lparr>blockDb = Map.empty,
      detailsDb = \<lparr>detail = Map.empty, numberIndex = Map.empty, metaJson = None,
                   metaQuoted = None\<rparr>,
      batch_undefined = (\<lambda>db ops. (Some WriteError, db)),
      validate = False,
      meta = Some \<lparr>heads = [], rawHead = None, height = None, meta_td = 0, meta_genesis = None\<rparr>,
      initLock = False\<rparr>"

text \<open>The instance after the genesis block \<open>00\<close> was put into \<open>ex_fresh\<close>.\<close>

definition ex_chain_G :: blockchain where
  "ex_chain_G =
     \<lparr>blockDb = [Binary ''00'' \<mapsto> ex_G],
      detailsDb = \<lparr>detail = [''00'' \<mapsto> ex_G_details], numberIndex = [0 \<mapsto> ''00''],
                   metaJson = Some ex_G_meta, metaQuoted = None\<rparr>,
      batch_undefined = (\<lambda>db ops. (Some WriteError, db)),
      validate = False, meta = Some ex_G_meta, initLock = False\<rparr>"

text \<open>The instance after \<open>a1\<close> was put into \<open>ex_chain_G\<close>.\<close>

definition ex_A_details :: details where
  "ex_A_details = \<lparr>parent = ''00'', td = 8, number = 1, child = None, staleChildren = [],
                   genesis = False, inChain = Some True, markers = []\<rparr>"

definition ex_A_meta :: meta where
  "ex_A_meta = \<lparr>heads = [], rawHead = Some ''a1'', height = Some 1, meta_td = 8,
                meta_genesis = Some ''00''\<rparr>"

definition ex_chain_GA :: blockchain where
  "ex_chain_GA =
     \<lparr>blockDb = [Binary ''00'' \<mapsto> ex_G, Binary ''a1'' \<mapsto> ex_A],
      detailsDb = \<lparr>detail = [''00'' \<mapsto> ex_G_details\<lparr>child := Some ''a1''\<rparr>,
                              ''a1'' \<mapsto> ex_A_details],
                   numberIndex = [0 \<mapsto> ''00'', 1 \<mapsto> ''a1''],
                   metaJson = Some ex_A_meta, metaQuoted = None\<rparr>,
      batch_undefined = (\<lambda>db ops. (Some WriteError, db)),
      validate = False, meta = Some ex_A_meta, initLock = False\<rparr>"

text \<open>The instance after \<open>b1\<close> was put into \<open>ex_chain_GA\<close>: a stale child of \<open>00\<close>.\<close>

definition ex_chain_GAB :: blockchain where
  "ex_chain_GAB =
     \<lparr>blockDb = [Binary ''00'' \<mapsto> ex_G, Binary ''a1'' \<mapsto> ex_A, Binary ''b1'' \<mapsto> ex_B],
      detailsDb = \<lparr>detail = [''00'' \<mapsto> ex_G_details\<lparr>child := Some ''a1'', staleChildren := [''b1'']\<rparr>,
                              ''a1'' \<mapsto> ex_A_details,
                              ''b1'' \<mapsto> blockDetails ex_B 8],
                   numberIndex = [0 \<mapsto> ''00'', 1 \<mapsto> ''a1''],
                   metaJson = Some ex_A_meta, metaQuoted = None\<rparr>,
      batch_undefined = (\<lambda>db ops. (Some WriteError, db)),
      validate = False, meta = Some ex_A_meta, initLock = False\<rparr>"

text \<open>
  An instance constructed over the stores of \<open>ex_chain_GAB\<close>, before \<open>_init\<close> has
  read the meta record.
\<close>

definition ex_constructed :: blockchain where
  "ex_constructed =
     new_Blockchain (blockDb ex_chain_GAB) (detailsDb ex_chain_GAB)
       (\<lambda>db ops. (Some WriteError, db)) False"

text \<open>
  A store for the iterator: the \<open>child\<close> links lead from \<open>00\<close> to \<open>a1\<close>, \<open>c1\<close>
  and \<open>d1\<close>, and the header of \<open>d1\<close> names \<open>b1\<close> as its parent.
\<close>

definition ex_C :: block where
  "ex_C = \<lparr>hash = ''c1'', header_parentHash = ''a1'', header_number = 2,
           header_difficulty = 3, isGenesis = False\<rparr>"

definition ex_D :: block where
  "ex_D = \<lparr>hash = ''d1'', header_parentHash = ''b1'', header_number = 3,
           header_difficulty = 3, isGenesis = False\<rparr>"

definition ex_chain_iter :: blockchain where
  "ex_chain_iter =
     \<lparr>blockDb = [Binary ''00'' \<mapsto> ex_G, Binary ''a1'' \<mapsto> ex_A, Binary ''c1'' \<mapsto> ex_C,
                 Binary ''d1'' \<mapsto> ex_D],
      detailsDb = \<lparr>detail = [''00'' \<mapsto> ex_G_details\<lparr>child := Some ''a1''\<rparr>,
                              ''a1'' \<mapsto> ex_A_details\<lparr>child := Some ''c1''\<rparr>,
                              ''c1'' \<mapsto> (blockDetails ex_C 11)\<lparr>child := Some ''d1'', inChain := Some True\<rparr>,
                              ''d1'' \<mapsto> (blockDetails ex_D 14)\<lparr>inChain := Some True\<rparr>],
                   numberIndex = [0 \<mapsto> ''00'', 1 \<mapsto> ''a1'', 2 \<mapsto> ''c1'', 3 \<mapsto> ''d1''],
                   metaJson = None, metaQuoted = None\<rparr>,
      batch_undefined = (\<lambda>db ops. (Some WriteError, db)),
      validate = False,
      meta = Some \<lparr>heads = [], rawHead = Some ''d1'', height = Some 3, meta_td = 14,
                    meta_genesis = Some ''00''\<rparr>,
      initLock = False\<rparr>"

text \<open>
  A lighter branch from \<open>00\<close> that grows above the height of the chain: \<open>e1\<close>
  (difficulty 1), its child \<open>e2\<close> (1) and the child \<open>e3\<close> of that (9); and a child
  \<open>a2\<close> of \<open>a1\<close> (2).
\<close>

definition ex_E1 :: block where
  "ex_E1 = \<lparr>hash = ''e1'', header_parentHash = ''00'', header_number = 1,
            header_difficulty = 1, isGenesis = False\<rparr>"

definition ex_E2 :: block where
  "ex_E2 = \<lparr>hash = ''e2'', header_parentHash = ''e1'', header_number = 2,
            header_difficulty = 1, isGenesis = False\<rparr>"

definition ex_E3 :: block where
  "ex_E3 = \<lparr>hash = ''e3'', header_parentHash = ''e2'', header_number = 3,
            header_difficulty = 9, isGenesis = False\<rparr>"

definition ex_A2 :: block where
  "ex_A2 = \<lparr>hash = ''a2'', header_parentHash = ''a1'', header_number = 2,
            header_difficulty = 2, isGenesis = False\<rparr>"

section \<open>Ingestion: fork choice, frame and total difficulty\<close>

lemma rebuildInfo_sibling:
  assumes "meta s = Some m" "\<not> isGenesis b" "\<not> meta_td m < header_difficulty b + td pd"
  shows "rebuildInfo fuel s b False (Some pd) =
     Some (Inr [PutDetail (hash b) (Some (blockDetails b (header_difficulty b + td pd))),
                PutBlock (hash b) b,
                PutDetail (header_parentHash b) (Some (pd\<lparr>staleChildren := staleChildren pd @ [hash b]\<rparr>))], s)"
  using assms by (simp add: rebuildInfo_def totalDifficulty_def Let_def)

lemma putBlock_success_steps:
  assumes "priv_putBlock ext fuel s b isG = Some (None, s')"
  shows "\<exists>parentDetails dbOps s1. lookupParentBlock s b isG = Inr parentDetails \<and>
           rebuildInfo fuel s b isG parentDetails = Some (Inr dbOps, s1) \<and>
           priv_batchDbOps s1 dbOps = (None, s')"
  using assms
  by (auto simp: priv_putBlock_def split: option.splits sum.splits prod.splits)

lemma lookupParentBlock_False:
  "lookupParentBlock s b False = Inr pdo \<Longrightarrow> \<exists>pd. pdo = Some pd \<and> getDetails s (header_parentHash b) = Inr pd"
  by (auto simp: lookupParentBlock_def split: sum.splits)

lemma getDetails_Inr: "getDetails s h = Inr d \<longleftrightarrow> detail (detailsDb s) h = Some d"
  by (simp add: getDetails_def split: option.splits)

lemma relinked_fields [simp]:
  "inChain (relinked h pd) = inChain pd" "parent (relinked h pd) = parent pd"
  "number (relinked h pd) = number pd" "td (relinked h pd) = td pd"
  "child (relinked h pd) = Some h"
  by (simp_all add: relinked_def Let_def)

lemma rebuild_Suc:
  "priv_rebuildBlockchain (Suc n) s h ph (Some pd) ops =
     (if inChain pd = Some True
      then Some (Inr (ops @ [PutDetail ph (Some (relinked h pd))]))
      else case lookupNumberToHash s (int (number pd)) of
             Inl e \<Rightarrow> Some (Inl e)
           | Inr staleHash \<Rightarrow>
              (case getDetails s staleHash of
                 Inl e \<Rightarrow> Some (Inl e)
               | Inr staleDetails \<Rightarrow>
                  (case getDetails s (parent pd) of
                     Inl e \<Rightarrow> Some (Inl e)
                   | Inr ppDetails \<Rightarrow>
                       priv_rebuildBlockchain n s ph (parent pd) (Some ppDetails)
                         (ops @ [PutDetail ph (Some ((relinked h pd)\<lparr>inChain := Some True\<rparr>)),
                                 PutNumber (int (number staleDetails)) ph,
                                 PutDetail staleHash (Some (staleDetails\<lparr>inChain := Some False\<rparr>))]))))"
  by (simp add: relinked_def Let_def split: sum.splits)

lemma rebuild_ops:
  "priv_rebuildBlockchain fuel s h ph pdo ops = Some (Inr ops') \<Longrightarrow>
   ph \<in> dom (detail (detailsDb s)) \<Longrightarrow>
   \<exists>new. ops' = ops @ new \<and> list_all (staged_by_rebuild (detail (detailsDb s))) new"
proof (induction fuel arbitrary: h ph pdo ops)
  case 0
  then show ?case by simp
next
  case (Suc n)
  show ?case
  proof (cases pdo)
    case None
    with Suc.prems show ?thesis by simp
  next
    case (Some pd)
    show ?thesis
    proof (cases "inChain pd = Some True")
      case True
      with Suc.prems Some have "ops' = ops @ [PutDetail ph (Some (relinked h pd))]"
        by (simp add: rebuild_Suc del: priv_rebuildBlockchain.simps)
      with Suc.prems(2) show ?thesis by simp
    next
      case False
      with Suc.prems(1) Some obtain staleHash staleDetails ppDetails where
        sd: "getDetails s staleHash = Inr staleDetails" and
        pp: "getDetails s (parent pd) = Inr ppDetails" and
        rec: "priv_rebuildBlockchain n s ph (parent pd) (Some ppDetails)
               (ops @ [PutDetail ph (Some ((relinked h pd)\<lparr>inChain := Some True\<rparr>)),
                  PutNumber (int (number staleDetails)) ph,
                  PutDetail staleHash (Some (staleDetails\<lparr>inChain := Some False\<rparr>))]) = Some (Inr ops')"
        by (auto simp add: rebuild_Suc simp del: priv_rebuildBlockchain.simps split: sum.splits)
      from pp have "parent pd \<in> dom (detail (detailsDb s))"
        by (auto simp: getDetails_Inr)
      from Suc.IH[OF rec this] obtain new where
        new: "ops' = (ops @ [PutDetail ph (Some ((relinked h pd)\<lparr>inChain := Some True\<rparr>)),
                  PutNumber (int (number staleDetails)) ph,
                  PutDetail staleHash (Some (staleDetails\<lparr>inChain := Some False\<rparr>))]) @ new"
          "list_all (staged_by_rebuild (detail (detailsDb s))) new" by blast
      from sd have "staleHash \<in> dom (detail (detailsDb s))"
        by (auto simp: getDetails_Inr)
      with new Suc.prems(2) show ?thesis by simp
    qed
  qed
qed

lemma staged_by_rebuild_fold_detail:
  "list_all (staged_by_rebuild ds) new \<Longrightarrow> h \<notin> dom ds \<Longrightarrow>
   detail (fold (apply_details_op m) new db) h = detail db h"
proof (induction new arbitrary: db)
  case Nil
  then show ?case by simp
next
  case (Cons x xs)
  then show ?case
    by (cases "(ds, x)" rule: staged_by_rebuild.cases) auto
qed

lemma staged_by_rebuild_fold_metaJson:
  "list_all (staged_by_rebuild ds) new \<Longrightarrow>
   metaJson (fold (apply_details_op m) new db) = metaJson db"
proof (induction new arbitrary: db)
  case Nil
  then show ?case by simp
next
  case (Cons x xs)
  then show ?case
    by (cases "(ds, x)" rule: staged_by_rebuild.cases) auto
qed

lemma staged_by_rebuild_filters:
  "list_all (staged_by_rebuild ds) new \<Longrightarrow>
   filter is_block_op new = [] \<and> filter (\<lambda>op. \<not> is_block_op op) new = new \<and> \<not> list_ex undefined_value new"
proof (induction new)
  case Nil
  then show ?case by simp
next
  case (Cons x xs)
  then show ?case
    by (cases "(ds, x)" rule: staged_by_rebuild.cases) auto
qed


lemma rebuildInfo_heavier:
  assumes m: "meta s = Some m" and ng: "\<not> isGenesis b"
    and gt: "meta_td m < header_difficulty b + td pd"
    and r: "rebuildInfo fuel s b False (Some pd) = Some (Inr dbOps, s1)"
    and pd: "getDetails s (header_parentHash b) = Inr pd"
  shows "s1 = s\<lparr>meta := Some (m\<lparr>rawHead := Some (hash b), height := Some (header_number b),
                                  meta_td := header_difficulty b + td pd\<rparr>)\<rparr> \<and>
         (\<exists>new. dbOps = [PutDetail (hash b) (Some ((blockDetails b (header_difficulty b + td pd))\<lparr>inChain := Some True\<rparr>)),
                           PutBlock (hash b) b,
                           PutNumber (int (header_number b)) (hash b),
                           PutMeta] @ new \<and>
                list_all (staged_by_rebuild (detail (detailsDb s))) new)"
proof -
  let ?m1 = "m\<lparr>rawHead := Some (hash b), height := Some (header_number b),
                                  meta_td := header_difficulty b + td pd\<rparr>"
  let ?ops = "[PutDetail (hash b) (Some ((blockDetails b (header_difficulty b + td pd))\<lparr>inChain := Some True\<rparr>)),
                           PutBlock (hash b) b,
                           PutNumber (int (header_number b)) (hash b),
                           PutMeta]"
  from r m ng gt have
    rb: "priv_rebuildBlockchain fuel (s\<lparr>meta := Some ?m1\<rparr>) (hash b) (header_parentHash b)
          (Some (pd\<lparr>staleChildren := staleChildren pd @ [hash b]\<rparr>)) ?ops = Some (Inr dbOps)"
    and s1: "s1 = s\<lparr>meta := Some ?m1\<rparr>"
    by (auto simp: rebuildInfo_def totalDifficulty_def Let_def split: option.splits)
  from pd have "header_parentHash b \<in> dom (detail (detailsDb (s\<lparr>meta := Some ?m1\<rparr>)))"
    by (auto simp: getDetails_Inr)
  from rebuild_ops[OF rb this] s1 show ?thesis by auto
qed

lemma rebuildInfo_genesis:
  assumes "meta s = Some m" "isGenesis b" "isG \<or> parentDetails \<noteq> None"
  shows "rebuildInfo fuel s b isG parentDetails =
     Some (Inr [PutDetail (hash b) (Some ((blockDetails b (totalDifficulty b isG parentDetails))\<lparr>inChain := Some True\<rparr>)),
                PutBlock (hash b) b,
                PutNumber (int (header_number b)) (hash b),
                PutMeta],
           s\<lparr>meta := Some (m\<lparr>rawHead := Some (hash b), height := Some (header_number b),
                               meta_td := totalDifficulty b isG parentDetails,
                               meta_genesis := Some (hash b)\<rparr>)\<rparr>)"
  using assms by (auto simp: rebuildInfo_def Let_def)

lemma rebuildInfo_meta_None: "meta s = None \<Longrightarrow> rebuildInfo fuel s b isG pdo = Some (Inl TypeError, s)"
  by (simp add: rebuildInfo_def)


lemma sibling_state:
  assumes ok: "priv_putBlock ext fuel s b False = Some (None, s')"
    and m: "meta s = Some m"
    and ng: "\<not> isGenesis b"
    and pd: "getDetails s (header_parentHash b) = Inr pd"
    and le: "\<not> meta_td m < header_difficulty b + td pd"
  shows "s' = s\<lparr>blockDb := (blockDb s)(Binary (hash b) \<mapsto> b),
               detailsDb := (detailsDb s)\<lparr>detail := (detail (detailsDb s))
                  (hash b \<mapsto> blockDetails b (header_difficulty b + td pd),
                   header_parentHash b \<mapsto> pd\<lparr>staleChildren := staleChildren pd @ [hash b]\<rparr>)\<rparr>\<rparr>"
proof -
  from putBlock_success_steps[OF ok] obtain pdo dbOps s1 where
    l: "lookupParentBlock s b False = Inr pdo" and
    r: "rebuildInfo fuel s b False pdo = Some (Inr dbOps, s1)" and
    w: "priv_batchDbOps s1 dbOps = (None, s')" by blast
  from lookupParentBlock_False[OF l] pd have pdo: "pdo = Some pd" by auto
  from r pdo rebuildInfo_sibling[OF m ng le, of fuel] have
    "s1 = s" and "dbOps = [PutDetail (hash b) (Some (blockDetails b (header_difficulty b + td pd))),
                PutBlock (hash b) b,
                PutDetail (header_parentHash b) (Some (pd\<lparr>staleChildren := staleChildren pd @ [hash b]\<rparr>))]"
    by auto
  with w show ?thesis
    by (simp add: priv_batchDbOps_def)
qed

lemma heavier_state:
  assumes ok: "priv_putBlock ext fuel s b False = Some (None, s')"
    and m: "meta s = Some m"
    and ng: "\<not> isGenesis b"
    and pd: "getDetails s (header_parentHash b) = Inr pd"
    and gt: "meta_td m < header_difficulty b + td pd"
  shows "meta s' = Some (m\<lparr>rawHead := Some (hash b), height := Some (header_number b),
                           meta_td := header_difficulty b + td pd\<rparr>)"
    and "metaJson (detailsDb s') = meta s'"
    and "detail (detailsDb s) (hash b) = None \<Longrightarrow>
           detail (detailsDb s') (hash b) =
             Some ((blockDetails b (header_difficulty b + td pd))\<lparr>inChain := Some True\<rparr>)"
proof -
  from putBlock_success_steps[OF ok] obtain pdo dbOps s1 where
    l: "lookupParentBlock s b False = Inr pdo" and
    r: "rebuildInfo fuel s b False pdo = Some (Inr dbOps, s1)" and
    w: "priv_batchDbOps s1 dbOps = (None, s')" by blast
  from lookupParentBlock_False[OF l] pd have pdo: "pdo = Some pd" by auto
  let ?m1 = "m\<lparr>rawHead := Some (hash b), height := Some (header_number b),
                 meta_td := header_difficulty b + td pd\<rparr>"
  let ?bd = "(blockDetails b (header_difficulty b + td pd))\<lparr>inChain := Some True\<rparr>"
  from rebuildInfo_heavier[OF m ng gt r[unfolded pdo] pd] obtain new where
    s1: "s1 = s\<lparr>meta := Some ?m1\<rparr>" and
    ops: "dbOps = [PutDetail (hash b) (Some ?bd),
                   PutBlock (hash b) b, PutNumber (int (header_number b)) (hash b), PutMeta] @ new" and
    new: "list_all (staged_by_rebuild (detail (detailsDb s))) new" by blast
  note f = staged_by_rebuild_filters[OF new]
  from w have s': "s' = s1\<lparr>blockDb := (blockDb s1)(Binary (hash b) \<mapsto> b),
      detailsDb := fold (apply_details_op (meta s1)) new
        ((detailsDb s1)\<lparr>detail := (detail (detailsDb s1))(hash b \<mapsto> ?bd),
                        numberIndex := (numberIndex (detailsDb s1))(int (header_number b) \<mapsto> hash b),
                        metaJson := meta s1\<rparr>)\<rparr>"
    unfolding ops using f by (auto simp: priv_batchDbOps_def Let_def)
  show "meta s' = Some ?m1" using s' s1 by simp
  show "metaJson (detailsDb s') = meta s'"
    using s' s1 by (simp add: staged_by_rebuild_fold_metaJson[OF new])
  show "detail (detailsDb s') (hash b) = Some ?bd" if "detail (detailsDb s) (hash b) = None"
  proof -
    from that have "hash b \<notin> dom (detail (detailsDb s))" by auto
    from staged_by_rebuild_fold_detail[OF new this] show ?thesis
      using s' s1 by simp
  qed
qed

lemma sibling_detail:
  assumes ok: "priv_putBlock ext fuel s b False = Some (None, s')"
    and m: "meta s = Some m"
    and ng: "\<not> isGenesis b"
    and pd: "getDetails s (header_parentHash b) = Inr pd"
    and le: "\<not> meta_td m < header_difficulty b + td pd"
    and fresh: "detail (detailsDb s) (hash b) = None"
  shows "detail (detailsDb s') (hash b) = Some (blockDetails b (header_difficulty b + td pd))"
proof -
  from pd fresh have "header_parentHash b \<noteq> hash b"
    by (auto simp: getDetails_Inr)
  with sibling_state[OF ok m ng pd le] show ?thesis by simp
qed

text \<open>
  Claim C7. A block that is not a genesis block (neither flagged nor by its own
  \<open>isGenesis()\<close>) and whose total difficulty, its own difficulty plus the parent
  record's \<open>td\<close>, does not exceed \<open>meta.td\<close>, is ingested by writing exactly this:
  the encoded block under its hash, its own Detail Record as \<open>rebuildInfo\<close> built it,
  and the parent's Detail Record with the new hash appended to \<open>staleChildren\<close>.
  Everything else of the instance is as before: \<open>self.meta\<close>, the stored meta
  record, every entry of the number index and every other Detail Record.
\<close>

theorem putBlock_sibling_frame:
  assumes ok: "priv_putBlock ext fuel s b False = Some (None, s')"
    and m: "meta s = Some m"
    and ng: "\<not> isGenesis b"
    and pd: "getDetails s (header_parentHash b) = Inr pd"
    and le: "\<not> meta_td m < header_difficulty b + td pd"
  shows "s' = s\<lparr>blockDb := (blockDb s)(Binary (hash b) \<mapsto> b),
               detailsDb := (detailsDb s)\<lparr>detail := (detail (detailsDb s))
                  (hash b \<mapsto> blockDetails b (header_difficulty b + td pd),
                   header_parentHash b \<mapsto> pd\<lparr>staleChildren := staleChildren pd @ [hash b]\<rparr>)\<rparr>\<rparr>"
  using sibling_state[OF ok m ng pd le] .

text \<open>
  Claim C1. For an ingested block that is not a genesis block, the head moves exactly
  when the block's total difficulty is strictly greater than \<open>meta.td\<close>. If it is,
  \<open>self.meta\<close> afterwards has the block as \<open>rawHead\<close>, its number as \<open>height\<close>
  and its total difficulty as \<open>td\<close>, that record is the one stored under
  \<open>'meta'\<close>, and the Detail Record of the block (for a block the store did not have)
  is marked \<open>inChain\<close>. If it is not, equal total difficulty included, \<open>self.meta\<close>,
  the stored meta record and the number index are what they were, and the Detail
  Record of the block carries no \<open>inChain\<close>.
\<close>

theorem putBlock_rawHead_iff_heavier:
  assumes ok: "priv_putBlock ext fuel s b False = Some (None, s')"
    and m: "meta s = Some m"
    and ng: "\<not> isGenesis b"
    and pd: "getDetails s (header_parentHash b) = Inr pd"
  shows "if meta_td m < header_difficulty b + td pd
         then meta s' = Some (m\<lparr>rawHead := Some (hash b), height := Some (header_number b),
                                 meta_td := header_difficulty b + td pd\<rparr>) \<and>
              metaJson (detailsDb s') = meta s' \<and>
              (detail (detailsDb s) (hash b) = None \<longrightarrow>
                 map_option inChain (detail (detailsDb s') (hash b)) = Some (Some True))
         else meta s' = Some m \<and>
              metaJson (detailsDb s') = metaJson (detailsDb s) \<and>
              numberIndex (detailsDb s') = numberIndex (detailsDb s) \<and>
              (detail (detailsDb s) (hash b) = None \<longrightarrow>
                 map_option inChain (detail (detailsDb s') (hash b)) = Some None)"
proof (cases "meta_td m < header_difficulty b + td pd")
  case True
  from heavier_state[OF ok m ng pd True] True show ?thesis
    by (simp add: blockDetails_def)
next
  case False
  from sibling_state[OF ok m ng pd False] sibling_detail[OF ok m ng pd False] m False
  show ?thesis by (simp add: blockDetails_def)
qed

text \<open>
  Claim C8. After a block the store did not have is ingested, its Detail Record is in
  the store, and the \<open>td\<close> recorded there is the block's own difficulty when the
  block was put as genesis (and is a genesis block), and otherwise the block's own
  difficulty plus the \<open>td\<close> recorded in the Detail Record of its parent.
\<close>

theorem recorded_totalDifficulty:
  assumes ok: "priv_putBlock ext fuel s b isG = Some (None, s')"
    and fresh: "detail (detailsDb s) (hash b) = None"
    and flag: "isG \<Longrightarrow> isGenesis b"
  shows "\<exists>d. detail (detailsDb s') (hash b) = Some d \<and>
           (if isG then td d = header_difficulty b
            else \<exists>pd. detail (detailsDb s) (header_parentHash b) = Some pd \<and>
                      td d = header_difficulty b + td pd)"
proof -
  from putBlock_success_steps[OF ok] obtain pdo dbOps s1 where
    l: "lookupParentBlock s b isG = Inr pdo" and
    r: "rebuildInfo fuel s b isG pdo = Some (Inr dbOps, s1)" and
    w: "priv_batchDbOps s1 dbOps = (None, s')" by blast
  from r obtain m where m: "meta s = Some m"
    by (cases "meta s") (auto simp: rebuildInfo_meta_None)
  show ?thesis
  proof (cases "isGenesis b")
    case g: True
    have c: "isG \<or> pdo \<noteq> None"
      using l by (auto simp: lookupParentBlock_def split: sum.splits)
    from r rebuildInfo_genesis[OF m g c, of fuel] have
      ops: "dbOps = [PutDetail (hash b) (Some ((blockDetails b (totalDifficulty b isG pdo))\<lparr>inChain := Some True\<rparr>)),
                PutBlock (hash b) b, PutNumber (int (header_number b)) (hash b), PutMeta]"
      by simp
    from w have d: "detail (detailsDb s') (hash b) =
        Some ((blockDetails b (totalDifficulty b isG pdo))\<lparr>inChain := Some True\<rparr>)"
      unfolding ops by (auto simp: priv_batchDbOps_def Let_def)
    show ?thesis
    proof (cases isG)
      case True
      with d show ?thesis by (simp add: blockDetails_def totalDifficulty_def)
    next
      case False
      with l have "lookupParentBlock s b False = Inr pdo" by simp
      from lookupParentBlock_False[OF this] obtain pd where
        "pdo = Some pd" "getDetails s (header_parentHash b) = Inr pd" by blast
      with d False show ?thesis
        by (simp add: blockDetails_def totalDifficulty_def getDetails_Inr)
    qed
  next
    case ng: False
    have nG: "\<not> isG" using flag ng by auto
    with l have "lookupParentBlock s b False = Inr pdo" by simp
    from lookupParentBlock_False[OF this] obtain pd where
      pdo: "pdo = Some pd" and pd: "getDetails s (header_parentHash b) = Inr pd" by blast
    from ok nG have ok': "priv_putBlock ext fuel s b False = Some (None, s')" by simp
    show ?thesis
    proof (cases "meta_td m < header_difficulty b + td pd")
      case True
      from heavier_state(3)[OF ok' m ng pd True fresh] pd nG show ?thesis
        by (simp add: blockDetails_def getDetails_Inr)
    next
      case False
      from sibling_detail[OF ok' m ng pd False fresh] pd nG show ?thesis
        by (simp add: blockDetails_def getDetails_Inr)
    qed
  qed
qed

lemmas ex_defs = ex_ext_def ex_G_def ex_A_def ex_B_def ex_G2_def ex_C_def ex_D_def
  ex_G_details_def ex_G_meta_def ex_A_details_def ex_A_meta_def ex_fresh_def ex_chain_G_def
  ex_chain_GA_def ex_chain_GAB_def ex_chain_iter_def ex_E1_def ex_E2_def ex_E3_def ex_A2_def

lemmas putBlock_defs = priv_putBlock_def verify_def verifyPOW_def lookupParentBlock_def
  getDetails_def rebuildInfo_def totalDifficulty_def blockDetails_def priv_batchDbOps_def
  lookupNumberToHash_def Let_def

text \<open>The example instances are what ingestion makes of the instance before.\<close>

lemma ex_chain_G_reached:
  "priv_putBlock ex_ext 0 ex_fresh ex_G True = Some (None, ex_chain_G)"
  by (simp add: putBlock_defs ex_defs)

lemma ex_chain_GA_reached:
  "priv_putBlock ex_ext (Suc 0) ex_chain_G ex_A False = Some (None, ex_chain_GA)"
  by (simp add: putBlock_defs ex_defs fun_upd_twist)

theorem putBlock_sibling_frame_witness:
  "\<exists>s'. priv_putBlock ex_ext 0 ex_chain_GA ex_B False = Some (None, s') \<and>
        meta s' = Some ex_A_meta \<and>
        metaJson (detailsDb s') = Some ex_A_meta \<and>
        numberIndex (detailsDb s') = [0 \<mapsto> ''00'', 1 \<mapsto> ''a1''] \<and>
        blockDb s' (Binary ''b1'') = Some ex_B \<and>
        detail (detailsDb s') ''b1'' = Some (blockDetails ex_B 8) \<and>
        detail (detailsDb s') ''00'' =
          Some (ex_G_details\<lparr>child := Some ''a1'', staleChildren := [''b1'']\<rparr>) \<and>
        detail (detailsDb s') ''a1'' = Some ex_A_details"
proof -
  have "\<exists>s'. priv_putBlock ex_ext 0 ex_chain_GA ex_B False = Some (None, s')"
    by (simp add: putBlock_defs ex_defs)
  then obtain s' where ok: "priv_putBlock ex_ext 0 ex_chain_GA ex_B False = Some (None, s')" ..
  have m: "meta ex_chain_GA = Some ex_A_meta" by (simp add: ex_chain_GA_def)
  have ng: "\<not> isGenesis ex_B" by (simp add: ex_B_def)
  have pd: "getDetails ex_chain_GA (header_parentHash ex_B) = Inr (ex_G_details\<lparr>child := Some ''a1''\<rparr>)"
    by (simp add: getDetails_def ex_chain_GA_def ex_B_def)
  have le: "\<not> meta_td ex_A_meta < header_difficulty ex_B + td (ex_G_details\<lparr>child := Some ''a1''\<rparr>)"
    by (simp add: ex_defs)
  from putBlock_sibling_frame[OF ok m ng pd le] ok show ?thesis
    by (simp add: ex_defs)
qed

theorem putBlock_rawHead_iff_heavier_witness:
  "\<exists>s'. priv_putBlock ex_ext (Suc 0) ex_chain_G ex_A False = Some (None, s') \<and>
        meta s' = Some (ex_G_meta\<lparr>rawHead := Some ''a1'', height := Some 1, meta_td := 8\<rparr>) \<and>
        metaJson (detailsDb s') = meta s' \<and>
        map_option inChain (detail (detailsDb s') ''a1'') = Some (Some True)"
proof -
  have "\<exists>s'. priv_putBlock ex_ext (Suc 0) ex_chain_G ex_A False = Some (None, s')"
    by (simp add: putBlock_defs ex_defs)
  then obtain s' where ok: "priv_putBlock ex_ext (Suc 0) ex_chain_G ex_A False = Some (None, s')" ..
  have m: "meta ex_chain_G = Some ex_G_meta" by (simp add: ex_chain_G_def)
  have ng: "\<not> isGenesis ex_A" by (simp add: ex_A_def)
  have pd: "getDetails ex_chain_G (header_parentHash ex_A) = Inr ex_G_details"
    by (simp add: getDetails_def ex_chain_G_def ex_A_def)
  from putBlock_rawHead_iff_heavier[OF ok m ng pd] ok show ?thesis
    by (simp add: ex_defs)
qed

theorem recorded_totalDifficulty_witness:
  "\<exists>s' d. priv_putBlock ex_ext (Suc 0) ex_chain_G ex_A False = Some (None, s') \<and>
        detail (detailsDb s') ''a1'' = Some d \<and> td d = 3 + 5"
proof -
  have "\<exists>s'. priv_putBlock ex_ext (Suc 0) ex_chain_G ex_A False = Some (None, s')"
    by (simp add: putBlock_defs ex_defs)
  then obtain s' where ok: "priv_putBlock ex_ext (Suc 0) ex_chain_G ex_A False = Some (None, s')" ..
  have fresh: "detail (detailsDb ex_chain_G) (hash ex_A) = None"
    by (simp add: ex_chain_G_def ex_A_def)
  from recorded_totalDifficulty[OF ok fresh] ok show ?thesis
    by (simp add: ex_defs)
qed

section \<open>The total difficulty of the head over a run of ingestions\<close>

lemma lookupParentBlock_True: "lookupParentBlock s b True = Inr pdo \<Longrightarrow> pdo = None"
  by (simp add: lookupParentBlock_def)







lemma ex_lookups:
  "lookupParentBlock ex_fresh ex_G True = Inr None"
  "lookupParentBlock ex_chain_G ex_A False = Inr (Some ex_G_details)"
  "lookupParentBlock ex_chain_GA ex_G2 True = Inr None"
  "lookupParentBlock ex_chain_GA ex_B False = Inr (Some (ex_G_details\<lparr>child := Some ''a1''\<rparr>))"
  by (simp_all add: lookupParentBlock_def getDetails_def ex_defs)

lemma ex_totalDifficulty:
  "totalDifficulty ex_G True None = 5"
  "totalDifficulty ex_A False (Some ex_G_details) = 8"
  "totalDifficulty ex_G2 True None = 1"
  "totalDifficulty ex_B False (Some (ex_G_details\<lparr>child := Some ''a1''\<rparr>)) = 8"
  by (simp_all add: totalDifficulty_def ex_defs)




text \<open>
  Why the run of Claim C2 has no failed call in it: \<open>rebuildInfo\<close> assigns the head
  before the rebuilder runs, and the assignment stays when the rebuilder fails. On
  the chain \<open>00\<close>, \<open>a1\<close> (total difficulty 8), the branch \<open>e1\<close> (6), \<open>e2\<close> (7)
  is ingested as stale. The put of \<open>e3\<close> (16) fails, the number index having no
  entry at the height of \<open>e2\<close>, and leaves \<open>meta.td\<close> at 16; the put of \<open>a2\<close> (10)
  then succeeds. \<open>meta.td\<close> is 16, and the greatest total difficulty of an ingested
  block is 10.
\<close>

lemma ex_branch_puts:
  "\<exists>s2 s3 s4 s5.
     priv_putBlock ex_ext (Suc 0) ex_chain_GA ex_E1 False = Some (None, s2) \<and>
     lookupParentBlock ex_chain_GA ex_E1 False = Inr (Some (ex_G_details\<lparr>child := Some ''a1''\<rparr>)) \<and>
     priv_putBlock ex_ext (Suc 0) s2 ex_E2 False = Some (None, s3) \<and>
     lookupParentBlock s2 ex_E2 False = Inr (Some (blockDetails ex_E1 6)) \<and>
     priv_putBlock ex_ext (Suc 0) s3 ex_E3 False = Some (Some NotFoundError, s4) \<and>
     priv_putBlock ex_ext (Suc 0) s4 ex_A2 False = Some (None, s5) \<and>
     lookupParentBlock s4 ex_A2 False = Inr (Some ex_A_details) \<and>
     map_option meta_td (meta s5) = Some 16"
  by (simp add: putBlock_defs ex_defs)

lemma failed_put_leaves_meta_td:
  "head_td (attempts ex_ext (Suc 0) ex_fresh
      [(ex_G, True), (ex_A, False), (ex_E1, False), (ex_E2, False), (ex_E3, False), (ex_A2, False)])
     = Some 16 \<and>
   Max (set (ingested_tds (attempts ex_ext (Suc 0) ex_fresh
      [(ex_G, True), (ex_A, False), (ex_E1, False), (ex_E2, False), (ex_E3, False), (ex_A2, False)])))
     = 10"
proof -
  have 1: "priv_putBlock ex_ext (Suc 0) ex_fresh ex_G True = Some (None, ex_chain_G)"
    by (simp add: putBlock_defs ex_defs)
  from ex_branch_puts obtain s2 s3 s4 s5 where
    p: "priv_putBlock ex_ext (Suc 0) ex_chain_GA ex_E1 False = Some (None, s2)"
       "lookupParentBlock ex_chain_GA ex_E1 False = Inr (Some (ex_G_details\<lparr>child := Some ''a1''\<rparr>))"
       "priv_putBlock ex_ext (Suc 0) s2 ex_E2 False = Some (None, s3)"
       "lookupParentBlock s2 ex_E2 False = Inr (Some (blockDetails ex_E1 6))"
       "priv_putBlock ex_ext (Suc 0) s3 ex_E3 False = Some (Some NotFoundError, s4)"
       "priv_putBlock ex_ext (Suc 0) s4 ex_A2 False = Some (None, s5)"
       "lookupParentBlock s4 ex_A2 False = Inr (Some ex_A_details)"
       "map_option meta_td (meta s5) = Some 16" by blast
  have t: "totalDifficulty ex_E1 False (Some (ex_G_details\<lparr>child := Some ''a1''\<rparr>)) = 6"
          "totalDifficulty ex_E2 False (Some (blockDetails ex_E1 6)) = 7"
          "totalDifficulty ex_A2 False (Some ex_A_details) = 10"
    by (simp_all add: totalDifficulty_def blockDetails_def ex_defs)
  have "attempts ex_ext (Suc 0) ex_fresh
      [(ex_G, True), (ex_A, False), (ex_E1, False), (ex_E2, False), (ex_E3, False), (ex_A2, False)]
      = Some (s5, [5, 8, 6, 7, 10])"
    by (simp add: 1 ex_chain_GA_reached p t ex_lookups ex_totalDifficulty)
  with p(8) show ?thesis by (simp add: head_td_def ingested_tds_def)
qed


section \<open>Range retrieval\<close>

lemma nextBlock_eq:
  "nextBlock n s maxBlocks skip reverse blockId i blocks =
     (let V = visited n s reverse blockId; E = emitted skip (i + 1) V
      in if int (length blocks) < maxBlocks \<and> nat maxBlocks - length blocks \<le> length E
         then Some (Inr (blocks @ take (nat maxBlocks - length blocks) E))
         else if length V < n then Some (Inr (blocks @ E)) else None)"
proof (induction n arbitrary: blockId i blocks)
  case 0
  show ?case by (auto simp: Let_def)
next
  case (Suc n)
  show ?case
  proof (cases "getBlock s blockId")
    case (Inl e)
    then show ?thesis by (auto simp: Let_def)
  next
    case (Inr block)
    let ?nx = "Num (int (header_number block) + (if reverse then - 1 else 1))"
    let ?V = "visited n s reverse ?nx"
    have V: "visited (Suc n) s reverse blockId = block # ?V" using Inr by simp
    show ?thesis
    proof (cases "i + 1 \<noteq> 0 \<and> skip \<noteq> 0 \<and> (skip + 1 = 0 \<or> \<not> (skip + 1) dvd (i + 1))")
      case True
      then have E: "emitted skip (i + 1) (block # ?V) = emitted skip (i + 1 + 1) ?V" by simp
      have step: "nextBlock (Suc n) s maxBlocks skip reverse blockId i blocks =
            nextBlock n s maxBlocks skip reverse ?nx (i + 1) blocks"
        using Inr True by (simp add: Let_def)
      show ?thesis
        unfolding step Suc.IH Let_def V E by simp
    next
      case False
      then have E: "emitted skip (i + 1) (block # ?V) = block # emitted skip (i + 1 + 1) ?V"
        by auto
      show ?thesis
      proof (cases "int (length (blocks @ [block])) = maxBlocks")
        case True
        have step: "nextBlock (Suc n) s maxBlocks skip reverse blockId i blocks = Some (Inr (blocks @ [block]))"
          using Inr False True by (auto simp: Let_def)
        have 1: "nat maxBlocks - length blocks = Suc 0" using True by auto
        have 2: "int (length blocks) < maxBlocks" using True by auto
        show ?thesis
          unfolding step Let_def V E using 1 2 by simp
      next
        case ne: False
        have step: "nextBlock (Suc n) s maxBlocks skip reverse blockId i blocks =
            nextBlock n s maxBlocks skip reverse ?nx (i + 1) (blocks @ [block])"
          using Inr False ne by (auto simp: Let_def)
        show ?thesis
        proof (cases "int (length blocks) < maxBlocks")
          case lt: True
          with ne have 1: "nat maxBlocks - length blocks = Suc (nat maxBlocks - Suc (length blocks))"
            and 2: "int (length blocks) + 1 < maxBlocks" by auto
          show ?thesis
            unfolding step Suc.IH Let_def V E using lt 1 2 by simp
        next
          case ge: False
          then have "\<not> int (length blocks) + 1 < maxBlocks" by simp
          with ge show ?thesis
            unfolding step Suc.IH Let_def V E by simp
        qed
      qed
    qed
  qed
qed

text \<open>
  Claim C6. Whatever the start, \<open>maxBlocks\<close>, \<open>skip\<close> and direction,
  \<open>getBlocks\<close> never calls back with an error. Of the blocks found one after the
  other up to the first lookup that fails, whatever the failure, it gathers every
  \<open>skip + 1\<close>-th, and it calls back with success: with the first \<open>maxBlocks\<close> of
  them as soon as it has that many, and otherwise, at the failing lookup, with those
  gathered so far. (\<open>None\<close>: neither happened within \<open>fuel\<close> lookups.)
\<close>

theorem getBlocks_partial_on_failure:
  "getBlocks fuel s blockId maxBlocks skip reverse =
     (let V = visited fuel s reverse blockId; E = emitted skip 0 V
      in if 0 < maxBlocks \<and> nat maxBlocks \<le> length E then Some (Inr (take (nat maxBlocks) E))
         else if length V < fuel then Some (Inr E)
         else None)"
  by (simp add: getBlocks_def nextBlock_eq Let_def)


section \<open>The head of a consumer\<close>





section \<open>The reorg flag of the iterator\<close>

lemma flags_ok_append:
  "flags_ok prev (xs @ ys) \<longleftrightarrow> flags_ok prev xs \<and> flags_ok (last_block prev xs) ys"
  by (induction prev xs rule: flags_ok.induct) (auto simp: last_block_def)

lemma last_block_append: "last_block prev (xs @ ys) = last_block (last_block prev xs) ys"
  by (simp add: last_block_def)

lemma run_call:
  assumes "run func s name h lastBlock = (e, s1, lastBlock1, call, nxt)"
  shows "flags_ok lastBlock call \<and> lastBlock1 = last_block lastBlock call"
  using assms
  by (auto simp: run_def Let_def last_block_def split: sum.splits option.splits)

lemma whilst_run_flags:
  "flags_ok None calls \<Longrightarrow> lastBlock = last_block None calls \<Longrightarrow>
   flags_ok None (snd (whilst_run func n s name blockhash lastBlock calls))"
proof (induction n arbitrary: s blockhash lastBlock calls)
  case 0
  then show ?case by simp
next
  case (Suc n)
  show ?case
  proof (cases "truthy blockhash")
    case False
    with Suc.prems show ?thesis by simp
  next
    case True
    obtain e s1 lastBlock1 call nxt where
      r: "run func s name (the blockhash) lastBlock = (e, s1, lastBlock1, call, nxt)"
      by (cases "run func s name (the blockhash) lastBlock") auto
    from run_call[OF r] have c: "flags_ok lastBlock call" "lastBlock1 = last_block lastBlock call"
      by auto
    have ok: "flags_ok None (calls @ call)"
      using Suc.prems c by (simp add: flags_ok_append)
    have lb: "lastBlock1 = last_block None (calls @ call)"
      using Suc.prems(2) c by (simp add: last_block_append)
    show ?thesis
    proof (cases e)
      case None
      with True r have
        "whilst_run func (Suc n) s name blockhash lastBlock calls =
         whilst_run func n s1 name nxt lastBlock1 (calls @ call)" by simp
      with Suc.IH[OF ok lb] show ?thesis by simp
    next
      case (Some err)
      with True r have "snd (whilst_run func (Suc n) s name blockhash lastBlock calls) = calls @ call"
        by simp
      with ok show ?thesis by simp
    qed
  qed
qed

lemma flags_ok_nth:
  "flags_ok prev calls \<Longrightarrow> i < length calls \<Longrightarrow>
   snd (calls ! i) =
     (case (if i = 0 then prev else Some (fst (calls ! (i - 1)))) of
        None \<Rightarrow> False
      | Some lb \<Rightarrow> hash lb \<noteq> header_parentHash (fst (calls ! i)))"
proof (induction calls arbitrary: prev i)
  case Nil
  then show ?case by simp
next
  case (Cons x cs)
  obtain b r where x: "x = (b, r)" by (cases x)
  from Cons.prems(1) x have
    r: "r = (case prev of None \<Rightarrow> False | Some lb \<Rightarrow> hash lb \<noteq> header_parentHash b)" and
    ok: "flags_ok (Some b) cs" by auto
  show ?case
  proof (cases i)
    case 0
    show ?thesis unfolding 0 x using r by (cases prev) simp_all
  next
    case (Suc j)
    with Cons.prems(2) have "j < length cs" by simp
    from Cons.IH[OF ok this] Suc x show ?thesis by (cases j) auto
  qed
qed

lemma iterator_flags: "flags_ok None (snd (priv_iterator func fuel s name))"
proof (cases "meta s")
  case None
  then show ?thesis by (simp add: priv_iterator_def)
next
  case (Some m)
  let ?bh = "if js_truthy (get_head (heads m) name) then get_head (heads m) name
             else js_of (meta_genesis m)"
  show ?thesis
  proof (cases "js_truthy ?bh")
    case False
    with Some show ?thesis by (simp add: priv_iterator_def Let_def)
  next
    case True
    show ?thesis
    proof (cases "getDetails s (js_toString ?bh)")
      case (Inl e)
      with Some True show ?thesis by (simp add: priv_iterator_def Let_def)
    next
      case (Inr d)
      have "flags_ok None (snd (whilst_run func fuel s name (child d) None []))"
        by (rule whilst_run_flags) (simp_all add: last_block_def)
      with Some True Inr show ?thesis
        by (auto simp: priv_iterator_def Let_def split: prod.splits option.splits)
    qed
  qed
qed

text \<open>
  Claim C9. In one run of the iterator, the \<open>reorg\<close> flag handed to the consumer with
  the \<open>i\<close>-th block is true exactly when a block was handed over before it in this
  run and the hash of that block is not the parent hash of this block's header. The
  first block of a run comes with \<open>reorg = false\<close>. This holds of the calls made
  within any number of passes, whether the run has ended by then or not.
\<close>

theorem iterator_reorg_flag:
  assumes "priv_iterator func fuel s name = (r, calls)" and "i < length calls"
  shows "snd (calls ! i) \<longleftrightarrow>
           0 < i \<and> hash (fst (calls ! (i - 1))) \<noteq> header_parentHash (fst (calls ! i))"
proof -
  from iterator_flags[of func fuel s name] assms(1) have "flags_ok None calls" by simp
  from flags_ok_nth[OF this assms(2)] show ?thesis by (cases i) auto
qed

section \<open>The theorems at the example instances\<close>

lemma ex_chain_GAB_reached:
  "priv_putBlock ex_ext 0 ex_chain_GA ex_B False = Some (None, ex_chain_GAB)"
  by (simp add: putBlock_defs ex_defs fun_upd_twist)

theorem getBlocks_partial_on_failure_witness:
  "getBlocks 3 ex_chain_GA (Num 0) 5 0 False = Some (Inr [ex_G, ex_A]) \<and>
   getBlocks 3 ex_chain_GA (Buf ''00'') 1 0 False = Some (Inr [ex_G]) \<and>
   getBlocks 3 ex_chain_GA Other 5 0 False = Some (Inr [])"
  unfolding getBlocks_partial_on_failure
  by (simp add: eval_nat_numeral lookupByHash_def lookupNumberToHash_def ex_defs)


lemmas iterator_defs = priv_iterator_def run_def priv_saveMeta_def priv_batchDbOps_def
  getDetails_def lookupByHash_def get_head_def set_head_def Object_prototype_def Let_def

theorem iterator_reorg_flag_witness:
  "\<exists>s'. priv_iterator (\<lambda>b r. None) 4 ex_chain_iter ''vm'' =
             (Some (None, s'), [(ex_A, False), (ex_C, False), (ex_D, True)]) \<and>
        (snd ([(ex_A, False), (ex_C, False), (ex_D, True)] ! 2) \<longleftrightarrow>
           hash ex_C \<noteq> header_parentHash ex_D)"
proof -
  have "\<exists>s'. priv_iterator (\<lambda>b r. None) 4 ex_chain_iter ''vm'' =
             (Some (None, s'), [(ex_A, False), (ex_C, False), (ex_D, True)])"
    by (simp add: eval_nat_numeral iterator_defs blockDetails_def ex_defs)
  then obtain s' where ok: "priv_iterator (\<lambda>b r. None) 4 ex_chain_iter ''vm'' =
             (Some (None, s'), [(ex_A, False), (ex_C, False), (ex_D, True)])" by blast
  from iterator_reorg_flag[OF ok, of 2] ok show ?thesis by simp
qed

section \<open>\<open>selectNeededHashes\<close> on the instance as it is\<close>

text \<open>
  Claim C5 says that \<open>selectNeededHashes\<close> succeeds with the suffix of hashes that
  are not stored. On a list that is not empty the first pass of the loop calls the
  member \<open>getBlockInfo\<close>, which the instance does not have, and the call throws: no
  list is returned, whatever the store holds.
\<close>

theorem selectNeededHashes_throws:
  "selectNeededHashes (Suc n) s (h # hs) = Some (Inl TypeError)"
  by (simp add: selectNeededHashes_def getBlockInfo_def)

lemma selectNeededHashes_empty: "selectNeededHashes (Suc n) s [] = Some (Inr [])"
  by (simp add: selectNeededHashes_def getBlockInfo_def)

lemma selectNeededHashes_example:
  "selectNeededHashes 1 ex_chain_GAB [''00'', ''a1'', ''b1'', ''e4'', ''e5''] = Some (Inl TypeError)"
  by (simp add: selectNeededHashes_def getBlockInfo_def)

text \<open>
  The loop itself is a correct search: had the member been the accessor \<open>getDetails\<close>,
  then on a list whose first \<open>k\<close> hashes are stored and whose others are not, the
  loop would end with \<open>min = k\<close>, so that \<open>hashes.slice(min)\<close> would be the hashes
  not stored.
\<close>

lemma whilst_select_boundary:
  fixes k :: nat
  assumes mono: "\<forall>i<length hashes. (f (Some (hashes ! i)) \<noteq> Inl NotFoundError) = (i < k)"
    and err: "\<forall>a e. f a = Inl e \<longrightarrow> e = NotFoundError \<or> a = None"
  shows "0 \<le> mn \<Longrightarrow> mx < int (length hashes) \<Longrightarrow> mn \<le> int k \<Longrightarrow> int k \<le> mx + 1 \<Longrightarrow>
         (mn \<le> mx \<longrightarrow> mn \<le> mid \<and> mid \<le> mx) \<Longrightarrow> nat (mx - mn + 1) < n \<Longrightarrow>
         whilst_select n (Some f) hashes mx mid mn = Some (Inr (int k))"
proof (induction n arbitrary: mx mid mn)
  case 0
  then show ?case by simp
next
  case (Suc n)
  show ?case
  proof (cases "mn \<le> mx")
    case False
    with Suc.prems have "mn = int k" by linarith
    with False show ?thesis by simp
  next
    case True
    with Suc.prems have mid: "mn \<le> mid" "mid \<le> mx" by auto
    with Suc.prems have rng: "0 \<le> mid" "mid < int (length hashes)" "nat mid < length hashes"
      by auto
    let ?arg = "Some (hashes ! nat mid)"
    show ?thesis
    proof (cases "f ?arg")
      case (Inr d)
      with mono rng have lt: "nat mid < k" by (metis sum.distinct(1))
      have step: "whilst_select (Suc n) (Some f) hashes mx mid mn =
                  whilst_select n (Some f) hashes mx ((mid + 1 + mx) div 2) (mid + 1)"
        using True rng Inr by (simp add: Let_def)
      have "whilst_select n (Some f) hashes mx ((mid + 1 + mx) div 2) (mid + 1) = Some (Inr (int k))"
      proof (rule Suc.IH)
        show "0 \<le> mid + 1" using rng by simp
        show "mx < int (length hashes)" using Suc.prems by simp
        show "mid + 1 \<le> int k" using lt rng by linarith
        show "int k \<le> mx + 1" using Suc.prems by simp
        show "mid + 1 \<le> mx \<longrightarrow> mid + 1 \<le> (mid + 1 + mx) div 2 \<and> (mid + 1 + mx) div 2 \<le> mx"
          by auto
        show "nat (mx - (mid + 1) + 1) < n" using Suc.prems(6) mid by linarith
      qed
      with step show ?thesis by simp
    next
      case (Inl e)
      with err have "f ?arg = Inl NotFoundError" by blast
      with mono rng have ge: "\<not> nat mid < k" by blast
      have step: "whilst_select (Suc n) (Some f) hashes mx mid mn =
                  whilst_select n (Some f) hashes (mid - 1) ((mn + (mid - 1)) div 2) mn"
        using True rng Inl by (simp add: Let_def)
      have "whilst_select n (Some f) hashes (mid - 1) ((mn + (mid - 1)) div 2) mn = Some (Inr (int k))"
      proof (rule Suc.IH)
        show "0 \<le> mn" using Suc.prems by simp
        show "mid - 1 < int (length hashes)" using rng by simp
        show "mn \<le> int k" using Suc.prems by simp
        show "int k \<le> mid - 1 + 1" using ge rng by linarith
        show "mn \<le> mid - 1 \<longrightarrow> mn \<le> (mn + (mid - 1)) div 2 \<and> (mn + (mid - 1)) div 2 \<le> mid - 1"
          by auto
        show "nat (mid - 1 - mn + 1) < n" using Suc.prems(6) mid by linarith
      qed
      with step show ?thesis by simp
    qed
  qed
qed

lemma selection_with_getDetails:
  fixes k :: nat
  assumes k: "k \<le> length hashes"
    and mono: "\<forall>i<length hashes. (detail (detailsDb s) (hashes ! i) \<noteq> None) = (i < k)"
    and fuel: "length hashes < fuel"
  shows "whilst_select fuel
           (Some (\<lambda>arg. case arg of None \<Rightarrow> Inl TypeError | Some h \<Rightarrow> getDetails s h))
           hashes (int (length hashes) - 1) 0 0 = Some (Inr (int k))"
proof (rule whilst_select_boundary)
  show "\<forall>i<length hashes.
          ((case Some (hashes ! i) of None \<Rightarrow> Inl TypeError | Some h \<Rightarrow> getDetails s h)
             \<noteq> Inl NotFoundError) = (i < k)"
    using mono by (auto simp: getDetails_def split: option.splits)
  show "\<forall>a e. (case a of None \<Rightarrow> Inl TypeError | Some h \<Rightarrow> getDetails s h) = Inl e \<longrightarrow>
          e = NotFoundError \<or> a = None"
    by (auto simp: getDetails_def split: option.splits)
qed (use k fuel in auto)

section \<open>Deletion on the example chain\<close>

lemmas delBlock_defs = delBlock_def getDetails_def priv_batchDbOps_def staleChildern_def Let_def

text \<open>
  Claim C4 says that \<open>delBlock\<close> deletes the Detail Record and the encoded block of
  the block, of its \<open>child\<close> and of all its \<open>staleChildren\<close>, recursively, and
  resets \<open>rawHead\<close> to the parent of an in-chain block. On the example chain,
  deleting \<open>00\<close> (child \<open>a1\<close>, stale child \<open>b1\<close>) deletes the Detail Records of
  \<open>00\<close> and \<open>a1\<close> and resets \<open>rawHead\<close> to the parent \<open>ff\<close>, but the Detail
  Record of the stale child \<open>b1\<close> stays, and so do the encoded blocks of all three.
\<close>

theorem delBlock_leaves_stale_children_and_blocks:
  "\<exists>s'. delBlock 2 ex_chain_GAB ''00'' = Some (None, s') \<and>
        detail (detailsDb s') ''00'' = None \<and>
        detail (detailsDb s') ''a1'' = None \<and>
        detail (detailsDb s') ''b1'' = Some (blockDetails ex_B 8) \<and>
        blockDb s' (Binary ''00'') = Some ex_G \<and>
        blockDb s' (Binary ''a1'') = Some ex_A \<and>
        blockDb s' (Binary ''b1'') = Some ex_B \<and>
        map_option rawHead (meta s') = Some (Some ''ff'')"
  by (simp add: eval_nat_numeral delBlock_defs ex_defs)

text \<open>
  No call of \<open>delBlock\<close> removes an encoded block from the key it was stored under.
\<close>

lemma delBlock_ops:
  "priv_delBlock n s h ops rh = Some (e, ops', rh') \<Longrightarrow> list_all is_del ops \<Longrightarrow>
     list_all is_del ops'"
  "each_delBlock n2 s2 cs ops2 rh2 = Some (e2, ops2', rh2') \<Longrightarrow> list_all is_del ops2 \<Longrightarrow>
     list_all is_del ops2'"
proof (induction n s h ops rh and n2 s2 cs ops2 rh2 arbitrary: e ops' rh' and e2 ops2' rh2'
        rule: priv_delBlock_each_delBlock.induct)
  case (1 s blockhash dbOps resetHeads)
  then show ?case by simp
next
  case (2 n s blockhash dbOps resetHeads)
  from "2.prems" show ?case
    by (auto simp: Let_def staleChildern_def split: option.splits sum.splits if_splits
             dest!: "2.IH"(1)[rotated -2])
next
  case (3 n s dbOps resetHeads)
  then show ?case by simp
next
  case (4 n s c cs dbOps resetHeads)
  show ?case
  proof (cases "priv_delBlock n s c dbOps resetHeads")
    case None
    with "4.prems" show ?thesis by simp
  next
    case (Some r)
    obtain e1 o1 r1 where r: "r = (e1, o1, r1)" by (cases r)
    from "4.IH"(1)[OF Some[unfolded r] "4.prems"(2)] have o1: "list_all is_del o1" .
    show ?thesis
    proof (cases e1)
      case None
      from "4.prems"(1) Some r None have
        e: "each_delBlock n s cs o1 r1 = Some (e2, ops2', rh2')" by simp
      show ?thesis
        by (rule "4.IH"(2)[OF Some[unfolded r None] _ _ _ e o1]) simp_all
    next
      case (Some err)
      with "4.prems"(1) \<open>priv_delBlock n s c dbOps resetHeads = Some r\<close> r o1
      show ?thesis by simp
    qed
  qed
qed

lemma is_del_blockDb:
  "list_all is_del ops \<Longrightarrow> fold apply_block_op (filter is_block_op ops) db (Binary k) = db (Binary k)"
proof (induction ops arbitrary: db)
  case Nil
  then show ?case by simp
next
  case (Cons x xs)
  then show ?case by (cases x) auto
qed

lemma delBlock_keeps_encoded_blocks:
  assumes "delBlock fuel s h = Some (e, s')"
  shows "blockDb s' (Binary k) = blockDb s (Binary k)"
proof (cases "priv_delBlock fuel s h [] []")
  case None
  with assms show ?thesis by (simp add: delBlock_def)
next
  case (Some r)
  obtain e1 ops rh where r: "r = (e1, ops, rh)" by (cases r)
  from delBlock_ops(1)[of fuel s h "[]" "[]" e1 ops rh] Some r have d: "list_all is_del ops" by simp
  from assms Some r is_del_blockDb[OF d, of "blockDb s" k] show ?thesis
    by (auto simp: delBlock_def priv_batchDbOps_def Let_def split: option.splits sum.splits if_splits)
qed

section \<open>Operations on an instance whose gate is still locked\<close>

lemmas gate_defs = getHead_def putBlock_def putGenesis_def iterator_def

text \<open>
  Claim C3 says that every public operation called before the bootstrap is over waits
  for the gate and touches no store until then. On an instance just constructed over
  stores that hold the example chain, with \<open>meta\<close> still \<open>null\<close>: \<open>getHead\<close>,
  \<open>putBlock\<close>, \<open>putGenesis\<close>, \<open>putBlocks\<close> and \<open>iterator\<close> wait; \<open>getDetails\<close>,
  \<open>getBlock\<close> and \<open>getBlocks\<close> read the stores and answer, \<open>putDetails\<close> writes,
  and \<open>selectNeededHashes\<close> throws. \<open>delBlock\<close> does not consult the gate either:
  it reads the detail store at once, and what follows depends on \<open>meta\<close> when the
  reads have called back. The value below is for \<open>meta\<close> still \<open>null\<close> at that
  point, where the assignment to \<open>self.meta.rawHead\<close> throws; on a store that has
  answered the read of \<open>_init\<close> by then, \<open>meta\<close> is set and the deletion goes on.
\<close>

theorem ungated_operations_run_before_init:
  "initLock ex_constructed \<and> meta ex_constructed = None \<and>
   getHead ex_constructed None = Waiting \<and>
   putBlock ex_ext 1 ex_constructed ex_C False = Waiting \<and>
   putGenesis ex_ext 1 ex_constructed ex_G2 = Waiting \<and>
   putBlocks ex_ext 1 ex_constructed [ex_C] = Waiting \<and>
   iterator (\<lambda>b r. None) 1 ex_constructed ''vm'' = Waiting \<and>
   getDetails ex_constructed ''a1'' = Inr ex_A_details \<and>
   getBlock ex_constructed (Num 1) = Inr ex_A \<and>
   getBlocks 3 ex_constructed (Num 0) 2 0 False = Some (Inr [ex_G, ex_A]) \<and>
   detail (detailsDb (putDetails ex_constructed ''a1'' (blockDetails ex_C 0))) ''a1'' =
     Some (blockDetails ex_C 0) \<and>
   delBlock 1 ex_constructed ''a1'' = Some (Some TypeError, ex_constructed) \<and>
   selectNeededHashes 1 ex_constructed [''00'', ''a1''] = Some (Inl TypeError)"
  by (simp add: eval_nat_numeral gate_defs ex_constructed_def new_Blockchain_def getDetails_def
        putDetails_def lookupByHash_def lookupNumberToHash_def getBlocks_def delBlock_def
        selectNeededHashes_def getBlockInfo_def ex_defs)

end
